theory Spec2Isabelle
  imports Main "HOL-Library.Word"
begin

section \<open>Timestamp verification (lib/pkcs9/pkcs7.go) and the PowerShell signer (signers/ps/signer.go)\<close>

text \<open>
  The two Go files are thin compositions over collaborators that live in other packages
  (the PKCS\#7 codec, crypto/x509, the authenticode digest engine, the timestamp client).
  Each collaborator is a field of a record of functions handed to the model, so every
  theorem below holds for whatever the collaborators compute. Go's \<open>(value, error)\<close>
  results are sums with the error on the left; a bare \<open>error\<close> result is an
  \<open>error option\<close> with \<open>None\<close> for \<open>nil\<close>.
\<close>

subsection \<open>Data\<close>

type_synonym bytes = "8 word list"

text \<open>Seconds since the instant of Go's zero \<open>time.Time\<close>.\<close>

type_synonym time = int

definition zero_time :: time where
  "zero_time = 0"

text \<open>
  The object identifiers the two files name. Their numeric values are declared in other
  files; all that is used of them here is that they are four different identifiers.
\<close>

datatype oid =
    OidAttributeTimeStampToken
  | OidSpcTimeStampToken
  | OidAttributeCounterSign
  | OidAttributeSigningTime
  | OidOther "nat list"

text \<open>
  Go errors. \<open>ErrNoAttribute\<close> is the struct type \<open>pkcs7.ErrNoAttribute\<close> that the type
  assertions of \<open>VerifyTimestamp\<close> and \<open>VerifyOptionalTimestamp\<close> test for; \<open>ErrNew s\<close> is
  \<open>errors.New(s)\<close>; \<open>Errorf p e\<close> is \<open>fmt.Errorf(p + "%s", e)\<close>; \<open>ErrUnmarshal\<close> is a
  decoding failure of the ASN.1 layer; \<open>ErrOther\<close> stands for any other error a collaborator
  returns.
\<close>

datatype error =
    ErrNoAttribute oid
  | ErrNew string
  | Errorf string error
  | ErrUnmarshal
  | ErrOther string

text \<open>The Go type assertion \<open>_, ok := err.(pkcs7.ErrNoAttribute)\<close>.\<close>

fun is_ErrNoAttribute :: "error \<Rightarrow> bool" where
  "is_ErrNoAttribute (ErrNoAttribute _) = True"
| "is_ErrNoAttribute _ = False"

text \<open>\<open>pkix.AlgorithmIdentifier\<close> (the arcs of its algorithm identifier) and \<open>crypto.Hash\<close>.\<close>

type_synonym algorithm_identifier = "nat list"
type_synonym crypto_hash = nat

datatype ext_key_usage =
    ExtKeyUsageAny
  | ExtKeyUsageCodeSigning
  | ExtKeyUsageTimeStamping
  | ExtKeyUsageOther nat

text \<open>The fields of \<open>x509.Certificate\<close> that chain validation looks at.\<close>

record certificate =
  Subject :: string
  Issuer :: string
  NotBefore :: time
  NotAfter :: time
  ExtKeyUsage :: "ext_key_usage list"

text \<open>
  PKCS\#7 structures. An attribute list pairs an identifier with a value; the values that
  matter here are a nested timestamp token (\<open>ContentInfoSignedData\<close>), a bare nested
  \<open>SignerInfo\<close> (the legacy counter-signature) and a time (the signing time).
\<close>

datatype attribute_value =
    ValSignedData content_info_signed_data
  | ValSignerInfo signer_info
  | ValTime time
  | ValRaw bytes
and signer_info = MkSignerInfo
    (DigestAlgorithm: algorithm_identifier)
    (AuthenticatedAttributes: "(oid \<times> attribute_value) list")
    (EncryptedDigest: bytes)
    (UnauthenticatedAttributes: "(oid \<times> attribute_value) list")
and signed_data = MkSignedData
    (ContentInfo: bytes)
    (Certificates: bytes)
    (SignerInfos: "signer_info list")
and content_info_signed_data = MkContentInfoSignedData
    (Content: signed_data)

type_synonym attribute_list = "(oid \<times> attribute_value) list"

text \<open>\<open>pkcs7.Signature\<close>: a verified SignerInfo with its certificate and the intermediates.\<close>

record signature =
  SignerInfo :: signer_info
  Certificate :: certificate
  Intermediates :: "certificate list"

text \<open>\<open>CounterSignature\<close> embeds a \<open>pkcs7.Signature\<close>; \<open>TimestampedSignature\<close> too, with an
  optional (nil-able) pointer to a \<open>CounterSignature\<close>.\<close>

record counter_signature =
  cs_Signature :: signature
  Hash :: crypto_hash
  SigningTime :: time

record timestamped_signature =
  ts_Signature :: signature
  CounterSignature :: "counter_signature option"

record message_imprint =
  HashAlgorithm :: algorithm_identifier
  HashedMessage :: bytes

record tst_info =
  MessageImprint :: message_imprint
  GenTime :: time

subsection \<open>Collaborators of lib/pkcs9\<close>

text \<open>
  \<^descr> \<open>Parse\<close>: \<open>RawCertificates.Parse()\<close>;
  \<^descr> \<open>UnpackTokenInfo\<close>: extracts the TSTInfo of a token;
  \<^descr> \<open>hash_sum\<close>: the digest of a byte string under an algorithm;
  \<^descr> \<open>PkixDigestToHash\<close>: \<open>x509tools.PkixDigestToHash\<close>, with its \<open>ok\<close> flag;
  \<^descr> \<open>ContentInfo_Bytes\<close>: \<open>ContentInfo.Bytes()\<close>;
  \<^descr> \<open>SignerInfo_Verify\<close>: \<open>SignerInfo.Verify(content, skipDigests, certs)\<close>.
\<close>

record env =
  Parse :: "bytes \<Rightarrow> error + certificate list"
  UnpackTokenInfo :: "content_info_signed_data \<Rightarrow> error + tst_info"
  hash_sum :: "algorithm_identifier \<Rightarrow> bytes \<Rightarrow> bytes"
  PkixDigestToHash :: "algorithm_identifier \<Rightarrow> crypto_hash \<times> bool"
  ContentInfo_Bytes :: "bytes \<Rightarrow> error + bytes"
  SignerInfo_Verify :: "signer_info \<Rightarrow> bytes \<Rightarrow> bool \<Rightarrow> certificate list \<Rightarrow> error + certificate"

text \<open>
  Modelled from the spec: \<open>AttributeList.GetOne\<close> of the PKCS\#7 codec, which is not among
  the two files (\<open>attributes.getOne(oid, &outValue) -> error(NotFound)\<close>). The first
  attribute with the identifier (\<open>map_of\<close>) is decoded into the destination; \<open>unmarshal\<close> stands for
  the destination's type and fails on a value of another shape. With no such attribute the
  error is \<open>ErrNoAttribute\<close>, the type \<open>VerifyTimestamp\<close> asserts after each lookup.
\<close>

definition GetOne :: "attribute_list \<Rightarrow> oid \<Rightarrow> (attribute_value \<Rightarrow> 'a option) \<Rightarrow> error + 'a" where
  "GetOne l oid unmarshal =
     (case map_of l oid of
        None \<Rightarrow> Inl (ErrNoAttribute oid)
      | Some v \<Rightarrow> (case unmarshal v of None \<Rightarrow> Inl ErrUnmarshal | Some x \<Rightarrow> Inr x))"

fun as_signed_data :: "attribute_value \<Rightarrow> content_info_signed_data option" where
  "as_signed_data (ValSignedData t) = Some t"
| "as_signed_data _ = None"

fun as_signer_info :: "attribute_value \<Rightarrow> signer_info option" where
  "as_signer_info (ValSignerInfo s) = Some s"
| "as_signer_info _ = None"

fun as_time :: "attribute_value \<Rightarrow> time option" where
  "as_time (ValTime t) = Some t"
| "as_time _ = None"

text \<open>
  Modelled from the spec: \<open>MessageImprint.Verify\<close>, declared in another file of the package
  (``recomputes the hash of the supplied bytes with the stated algorithm and compares for
  equality; any mismatch is a hard integrity failure'').
\<close>

definition MessageImprint_Verify :: "env \<Rightarrow> message_imprint \<Rightarrow> bytes \<Rightarrow> error option" where
  "MessageImprint_Verify env mi data =
     (if hash_sum env (HashAlgorithm mi) data = HashedMessage mi then None
      else Some (ErrNew ''digest check failed''))"

subsection \<open>VerifyTimestamp and VerifyOptionalTimestamp\<close>

text \<open>
  Lines 58--106 of \<open>VerifyTimestamp\<close>: the lookups and the two branches, which set the
  nested SignerInfo \<open>tsi\<close>, the bytes it signs \<open>verifyBlob\<close>, \<open>imprintHash\<close> and the
  candidate certificates \<open>certs\<close>, or return early with an error.
\<close>

definition locate_timestamp ::
  "env \<Rightarrow> signature \<Rightarrow> error + (signer_info \<times> bytes \<times> crypto_hash \<times> certificate list)" where
  "locate_timestamp env sig =
     (let ua = UnauthenticatedAttributes (SignerInfo sig);
          err0 = GetOne ua OidAttributeTimeStampToken as_signed_data;
          err = (case err0 of
                   Inl e \<Rightarrow> if is_ErrNoAttribute e
                            then GetOne ua OidSpcTimeStampToken as_signed_data else err0
                 | Inr _ \<Rightarrow> err0);
          certs = Intermediates sig
      in case err of
           Inr tst \<Rightarrow>
             (case SignerInfos (Content tst) of
                [tsi] \<Rightarrow>
                  (case Parse env (Certificates (Content tst)) of
                     Inl e \<Rightarrow> Inl e
                   | Inr tsicerts \<Rightarrow>
                       let certs' = (if length tsicerts \<noteq> 0 then certs @ tsicerts else certs) in
                       (case UnpackTokenInfo env tst of
                          Inl e \<Rightarrow> Inl e
                        | Inr tstinfo \<Rightarrow>
                            (case MessageImprint_Verify env (MessageImprint tstinfo)
                                    (EncryptedDigest (SignerInfo sig)) of
                               Some verr \<Rightarrow> Inl (Errorf ''failed to verify timestamp imprint: '' verr)
                             | None \<Rightarrow>
                                 let imprintHash =
                                       fst (PkixDigestToHash env (HashAlgorithm (MessageImprint tstinfo))) in
                                 (case ContentInfo_Bytes env (ContentInfo (Content tst)) of
                                    Inl e \<Rightarrow> Inl e
                                  | Inr verifyBlob \<Rightarrow> Inr (tsi, verifyBlob, imprintHash, certs')))))
              | _ \<Rightarrow> Inl (ErrNew ''timestamp should have exactly one SignerInfo''))
         | Inl e \<Rightarrow>
             if is_ErrNoAttribute e then
               (case GetOne ua OidAttributeCounterSign as_signer_info of
                  Inl e' \<Rightarrow> Inl e'
                | Inr tsi \<Rightarrow>
                    Inr (tsi, EncryptedDigest (SignerInfo sig),
                         fst (PkixDigestToHash env (DigestAlgorithm (SignerInfo sig))), certs))
             else Inl e)"

text \<open>The whole of \<open>VerifyTimestamp\<close>: the lookups, then lines 107--123.\<close>

definition VerifyTimestamp :: "env \<Rightarrow> signature \<Rightarrow> error + counter_signature" where
  "VerifyTimestamp env sig =
     (case locate_timestamp env sig of
        Inl e \<Rightarrow> Inl e
      | Inr (tsi, verifyBlob, imprintHash, certs) \<Rightarrow>
          (case SignerInfo_Verify env tsi verifyBlob False certs of
             Inl e \<Rightarrow> Inl e
           | Inr cert \<Rightarrow>
               (case GetOne (AuthenticatedAttributes tsi) OidAttributeSigningTime as_time of
                  Inl e \<Rightarrow> Inl e
                | Inr signingTime \<Rightarrow>
                    Inr \<lparr>cs_Signature = \<lparr>SignerInfo = tsi, Certificate = cert, Intermediates = certs\<rparr>,
                         Hash = imprintHash, SigningTime = signingTime\<rparr>)))"

text \<open>\<open>VerifyOptionalTimestamp\<close> returns \<open>tsig\<close> with every error too; the pair keeps both.\<close>

definition VerifyOptionalTimestamp :: "env \<Rightarrow> signature \<Rightarrow> timestamped_signature \<times> error option" where
  "VerifyOptionalTimestamp env sig =
     (let tsig = \<lparr>ts_Signature = sig, CounterSignature = None\<rparr> in
      case VerifyTimestamp env sig of
        Inl err \<Rightarrow> if is_ErrNoAttribute err then (tsig, None) else (tsig, Some err)
      | Inr ts \<Rightarrow> (tsig\<lparr>CounterSignature := Some ts\<rparr>, None))"

subsection \<open>Chain validation\<close>

text \<open>\<open>x509.VerifyOptions\<close>; a \<open>CertPool\<close> is the list of the certificates added to it.\<close>

record verify_options =
  opt_Intermediates :: "certificate list"
  Roots :: "certificate list"
  CurrentTime :: time
  KeyUsages :: "ext_key_usage list"

definition NewCertPool :: "certificate list" where
  "NewCertPool = []"

definition AddCert :: "certificate list \<Rightarrow> certificate \<Rightarrow> certificate list" where
  "AddCert pool cert = pool @ [cert]"

text \<open>
  \<open>CounterSignature.VerifyChain\<close>. The collaborator \<open>x509_Verify\<close> is
  \<open>x509.Certificate.Verify\<close>, which returns the chains found or an error; the two
  \<open>for ... range\<close> loops are folds over the slices.
\<close>

definition CounterSignature_VerifyChain ::
  "(certificate \<Rightarrow> verify_options \<Rightarrow> error + certificate list list) \<Rightarrow>
   counter_signature \<Rightarrow> certificate list \<Rightarrow> certificate list \<Rightarrow> error option" where
  "CounterSignature_VerifyChain x509_Verify cs roots extraCerts =
     (let pool = NewCertPool;
          pool = fold (\<lambda>cert pool. AddCert pool cert) extraCerts pool;
          pool = fold (\<lambda>cert pool. AddCert pool cert) (Intermediates (cs_Signature cs)) pool;
          opts = \<lparr>opt_Intermediates = pool, Roots = roots, CurrentTime = SigningTime cs,
                  KeyUsages = [ExtKeyUsageTimeStamping]\<rparr>
      in case x509_Verify (Certificate (cs_Signature cs)) opts of
           Inl err \<Rightarrow> Some err
         | Inr _ \<Rightarrow> None)"

text \<open>
  \<open>TimestampedSignature.VerifyChain\<close>. The collaborator \<open>Signature_VerifyChain\<close> is
  \<open>pkcs7.Signature.VerifyChain(roots, extraCerts, usage, currentTime)\<close>. The local
  \<open>signingTime\<close> starts as the zero \<open>time.Time\<close>, Go's request for the current time.
\<close>

definition TimestampedSignature_VerifyChain ::
  "(certificate \<Rightarrow> verify_options \<Rightarrow> error + certificate list list) \<Rightarrow>
   (signature \<Rightarrow> certificate list \<Rightarrow> certificate list \<Rightarrow> ext_key_usage \<Rightarrow> time \<Rightarrow> error option) \<Rightarrow>
   timestamped_signature \<Rightarrow> certificate list \<Rightarrow> certificate list \<Rightarrow> ext_key_usage \<Rightarrow> error option" where
  "TimestampedSignature_VerifyChain x509_Verify Signature_VerifyChain sig roots extraCerts usage =
     (case CounterSignature sig of
        Some cs \<Rightarrow>
          (case CounterSignature_VerifyChain x509_Verify cs roots extraCerts of
             Some err \<Rightarrow> Some (Errorf ''validating timestamp: '' err)
           | None \<Rightarrow> Signature_VerifyChain (ts_Signature sig) roots extraCerts usage (SigningTime cs))
      | None \<Rightarrow> Signature_VerifyChain (ts_Signature sig) roots extraCerts usage zero_time)"

subsection \<open>The PowerShell signer\<close>

type_synonym PsSigStyle = int

record sign_opts =
  Path :: string
  opts_Hash :: crypto_hash
  Flags :: "string \<rightharpoonup> string"

record verify_opts =
  NoDigests :: bool

record os_file =
  Name :: string
  Data :: bytes

record signers_signature =
  sig_Hash :: crypto_hash
  X509Signature :: timestamped_signature

text \<open>
  Collaborators of the signer; the certificate handle, the digest, the signed blob and the
  patch are opaque to it.
  \<^descr> \<open>GetSigStyle\<close>, \<open>AllSigStyles\<close>: the style registry of \<open>authenticode\<close>;
  \<^descr> \<open>DigestPowershell\<close>: digests the stream \<open>r\<close> under a style and a hash;
  \<^descr> \<open>Digest_Sign\<close>: \<open>digest.Sign(cert.Signer(), cert.Chain())\<close>;
  \<^descr> \<open>Timestamp\<close>: \<open>pkcs.Timestamp(psd, cert, opts, required)\<close>;
  \<^descr> \<open>MakePatch\<close>: \<open>digest.MakePatch(blob)\<close>;
  \<^descr> \<open>SetBinPatch\<close>: \<open>opts.SetBinPatch(patch)\<close>;
  \<^descr> \<open>VerifyPowershell\<close>: \<open>authenticode.VerifyPowershell(f, style, noDigests)\<close>;
  \<^descr> \<open>ps_PkixDigestToHash\<close>: \<open>x509tools.PkixDigestToHash\<close>.
\<close>

record ('cert, 'digest, 'psd, 'patch) ps_env =
  GetSigStyle :: "string \<Rightarrow> PsSigStyle \<times> bool"
  AllSigStyles :: "string list"
  DigestPowershell :: "bytes \<Rightarrow> PsSigStyle \<Rightarrow> crypto_hash \<Rightarrow> error + 'digest"
  Digest_Sign :: "'digest \<Rightarrow> 'cert \<Rightarrow> error + 'psd"
  Timestamp :: "'psd \<Rightarrow> 'cert \<Rightarrow> sign_opts \<Rightarrow> bool \<Rightarrow> error + bytes"
  MakePatch :: "'digest \<Rightarrow> bytes \<Rightarrow> error + 'patch"
  SetBinPatch :: "sign_opts \<Rightarrow> 'patch \<Rightarrow> error + bytes"
  VerifyPowershell :: "os_file \<Rightarrow> PsSigStyle \<Rightarrow> bool \<Rightarrow> error + timestamped_signature"
  ps_PkixDigestToHash :: "algorithm_identifier \<Rightarrow> crypto_hash \<times> bool"

text \<open>\<open>strings.Join\<close>.\<close>

fun Join :: "string list \<Rightarrow> string \<Rightarrow> string" where
  "Join [] sep = []"
| "Join [x] sep = x"
| "Join (x # y # ys) sep = x @ sep @ Join (y # ys) sep"

text \<open>\<open>Flags.GetString\<close>: the flag's value, or the empty string with an error.\<close>

definition GetString :: "(string \<rightharpoonup> string) \<Rightarrow> string \<Rightarrow> string \<times> error option" where
  "GetString flags name =
     (case flags name of
        None \<Rightarrow> ([], Some (ErrOther ''flag accessed but not defined''))
      | Some v \<Rightarrow> (v, None))"

definition getStyle :: "('cert, 'digest, 'psd, 'patch) ps_env \<Rightarrow> string \<Rightarrow> error + PsSigStyle" where
  "getStyle env name =
     (case GetSigStyle env name of
        (style, ok) \<Rightarrow>
          if \<not> ok then
            Inl (ErrNew (''unknown powershell style, expected: '' @ Join (AllSigStyles env) '' ''))
          else Inr style)"

definition sign ::
  "('cert, 'digest, 'psd, 'patch) ps_env \<Rightarrow> bytes \<Rightarrow> 'cert \<Rightarrow> sign_opts \<Rightarrow> error + bytes" where
  "sign env r cert opts =
     (let argStyle = fst (GetString (Flags opts) ''ps-style'');
          argStyle = (if argStyle = [] then Path opts else argStyle)
      in case getStyle env argStyle of
           Inl err \<Rightarrow> Inl err
         | Inr style \<Rightarrow>
             (case DigestPowershell env r style (opts_Hash opts) of
                Inl err \<Rightarrow> Inl err
              | Inr digest \<Rightarrow>
                  (case Digest_Sign env digest cert of
                     Inl err \<Rightarrow> Inl err
                   | Inr psd \<Rightarrow>
                       (case Timestamp env psd cert opts True of
                          Inl err \<Rightarrow> Inl err
                        | Inr blob \<Rightarrow>
                            (case MakePatch env digest blob of
                               Inl err \<Rightarrow> Inl err
                             | Inr patch \<Rightarrow> SetBinPatch env opts patch)))))"

definition verify ::
  "('cert, 'digest, 'psd, 'patch) ps_env \<Rightarrow> os_file \<Rightarrow> verify_opts \<Rightarrow> error + signers_signature list" where
  "verify env f opts =
     (case getStyle env (Name f) of
        Inl err \<Rightarrow> Inl err
      | Inr style \<Rightarrow>
          (case VerifyPowershell env f style (NoDigests opts) of
             Inl err \<Rightarrow> Inl err
           | Inr ts \<Rightarrow>
               let hash = fst (ps_PkixDigestToHash env (DigestAlgorithm (SignerInfo (ts_Signature ts))))
               in Inr [\<lparr>sig_Hash = hash, X509Signature = ts\<rparr>]))"

subsection \<open>Notions used to state the properties\<close>

definition unauth :: "signature \<Rightarrow> attribute_list" where
  "unauth sig = UnauthenticatedAttributes (SignerInfo sig)"

text \<open>
  The signature carries the timestamp token \<open>tst\<close>: under the standard identifier, or,
  with no attribute under the standard identifier, under the authenticode one.
\<close>

definition token_found :: "signature \<Rightarrow> content_info_signed_data \<Rightarrow> bool" where
  "token_found sig tst \<longleftrightarrow>
     map_of (unauth sig) OidAttributeTimeStampToken = Some (ValSignedData tst) \<or>
     (map_of (unauth sig) OidAttributeTimeStampToken = None \<and>
      map_of (unauth sig) OidSpcTimeStampToken = Some (ValSignedData tst))"

text \<open>The signature with every unauthenticated attribute dropped but those under \<open>oid\<close>.\<close>

definition only_attribute :: "oid \<Rightarrow> signature \<Rightarrow> signature" where
  "only_attribute oid sig =
     sig\<lparr>SignerInfo :=
           MkSignerInfo (DigestAlgorithm (SignerInfo sig)) (AuthenticatedAttributes (SignerInfo sig))
             (EncryptedDigest (SignerInfo sig)) (filter (\<lambda>a. fst a = oid) (unauth sig))\<rparr>"

text \<open>
  The lookup of the specification (section 4.5), written from its words as a second
  definition to compare \<open>VerifyTimestamp\<close> with. An ordered table pairs an attribute
  identifier with what to do with the attribute's value; the first identifier of the table
  that the attribute list carries decides, and the rest of the table is not looked at.
\<close>

fun first_match :: "attribute_list \<Rightarrow> (oid \<times> (attribute_value \<Rightarrow> 'r)) list \<Rightarrow> 'r \<Rightarrow> 'r" where
  "first_match ua [] absent = absent"
| "first_match ua (entry # table) absent =
     (case map_of ua (fst entry) of
        Some v \<Rightarrow> snd entry v
      | None \<Rightarrow> first_match ua table absent)"

text \<open>
  The end of the algorithm: verify the nested SignerInfo over the bytes with the candidate
  certificates, read its signing time, and build the CounterSignature.
\<close>

definition spec_counter_signature ::
  "env \<Rightarrow> signer_info \<Rightarrow> bytes \<Rightarrow> crypto_hash \<Rightarrow> certificate list \<Rightarrow> error + counter_signature" where
  "spec_counter_signature env tsi blob hash certs =
     (case SignerInfo_Verify env tsi blob False certs of
        Inl e \<Rightarrow> Inl e
      | Inr cert \<Rightarrow>
          (case map_of (AuthenticatedAttributes tsi) OidAttributeSigningTime of
             None \<Rightarrow> Inl (ErrNoAttribute OidAttributeSigningTime)
           | Some (ValTime t) \<Rightarrow>
               Inr \<lparr>cs_Signature = \<lparr>SignerInfo = tsi, Certificate = cert, Intermediates = certs\<rparr>,
                    Hash = hash, SigningTime = t\<rparr>
           | Some _ \<Rightarrow> Inl ErrUnmarshal))"

text \<open>
  Steps 1 and 2: the value is a nested SignedData with exactly one SignerInfo; its
  imprint is verified against the parent's raw encrypted digest; the bytes the nested
  SignerInfo signs are the encoded TSTInfo; the candidates are the parent's intermediates
  plus the certificates bundled in the token; the hash is the imprint's.
\<close>

definition spec_token_step :: "env \<Rightarrow> signature \<Rightarrow> attribute_value \<Rightarrow> error + counter_signature" where
  "spec_token_step env sig v =
     (case v of
        ValSignedData tst \<Rightarrow>
          (case SignerInfos (Content tst) of
             [tsi] \<Rightarrow>
               (case Parse env (Certificates (Content tst)) of
                  Inl e \<Rightarrow> Inl e
                | Inr bundled \<Rightarrow>
                    (case UnpackTokenInfo env tst of
                       Inl e \<Rightarrow> Inl e
                     | Inr tstinfo \<Rightarrow>
                         (case MessageImprint_Verify env (MessageImprint tstinfo)
                                 (EncryptedDigest (SignerInfo sig)) of
                            Some verr \<Rightarrow> Inl (Errorf ''failed to verify timestamp imprint: '' verr)
                          | None \<Rightarrow>
                              (case ContentInfo_Bytes env (ContentInfo (Content tst)) of
                                 Inl e \<Rightarrow> Inl e
                               | Inr encoded \<Rightarrow>
                                   spec_counter_signature env tsi encoded
                                     (fst (PkixDigestToHash env (HashAlgorithm (MessageImprint tstinfo))))
                                     (Intermediates sig @ bundled)))))
           | _ \<Rightarrow> Inl (ErrNew ''timestamp should have exactly one SignerInfo''))
      | _ \<Rightarrow> Inl ErrUnmarshal)"

text \<open>
  Step 3: the value is a bare SignerInfo; the bytes it signs are the parent's raw encrypted
  digest, the candidates the parent's intermediates, the hash the parent's own digest
  algorithm.
\<close>

definition spec_legacy_step :: "env \<Rightarrow> signature \<Rightarrow> attribute_value \<Rightarrow> error + counter_signature" where
  "spec_legacy_step env sig v =
     (case v of
        ValSignerInfo tsi \<Rightarrow>
          spec_counter_signature env tsi (EncryptedDigest (SignerInfo sig))
            (fst (PkixDigestToHash env (DigestAlgorithm (SignerInfo sig)))) (Intermediates sig)
      | _ \<Rightarrow> Inl ErrUnmarshal)"

text \<open>The table: standard token, authenticode token, counter-signature; else the
  attribute-not-found of the last lookup.\<close>

definition spec_verifyTimestamp :: "env \<Rightarrow> signature \<Rightarrow> error + counter_signature" where
  "spec_verifyTimestamp env sig =
     first_match (unauth sig)
       [(OidAttributeTimeStampToken, spec_token_step env sig),
        (OidSpcTimeStampToken, spec_token_step env sig),
        (OidAttributeCounterSign, spec_legacy_step env sig)]
       (Inl (ErrNoAttribute OidAttributeCounterSign))"

text \<open>The name \<open>sign\<close> resolves: the \<open>ps-style\<close> flag when it is set and not empty, else the path.\<close>

definition style_name :: "sign_opts \<Rightarrow> string" where
  "style_name opts =
     (case Flags opts ''ps-style'' of
        None \<Rightarrow> Path opts
      | Some v \<Rightarrow> if v = [] then Path opts else v)"

subsection \<open>Sample collaborators and inputs\<close>

text \<open>
  Concrete collaborators on which the theorems are instantiated: a digest that is the
  identity, a token whose TSTInfo imprint is its content, a nested signature that is valid
  when it equals the bytes it signs, and a chain validator that checks the validity window
  at the reference time (the clock \<open>now\<close> when that is the zero time), the key usage and
  the issuer among the roots.
\<close>

definition example_signer_cert :: certificate where
  "example_signer_cert =
     \<lparr>Subject = ''Signer'', Issuer = ''Root'', NotBefore = 1000, NotAfter = 2000,
      ExtKeyUsage = [ExtKeyUsageCodeSigning]\<rparr>"

definition example_tsa_cert :: certificate where
  "example_tsa_cert =
     \<lparr>Subject = ''TSA'', Issuer = ''Root'', NotBefore = 1000, NotAfter = 2000,
      ExtKeyUsage = [ExtKeyUsageTimeStamping]\<rparr>"

definition example_root_cert :: certificate where
  "example_root_cert =
     \<lparr>Subject = ''Root'', Issuer = ''Root'', NotBefore = 1, NotAfter = 100000, ExtKeyUsage = []\<rparr>"

definition example_env :: env where
  "example_env =
     \<lparr>Parse = (\<lambda>raw. Inr []),
      UnpackTokenInfo = (\<lambda>tst.
        Inr \<lparr>MessageImprint = \<lparr>HashAlgorithm = [1], HashedMessage = ContentInfo (Content tst)\<rparr>,
             GenTime = 1500\<rparr>),
      hash_sum = (\<lambda>alg data. data),
      PkixDigestToHash = (\<lambda>alg. if alg = [1] then (5, True) else if alg = [2] then (4, True) else (0, False)),
      ContentInfo_Bytes = (\<lambda>ci. Inr ci),
      SignerInfo_Verify = (\<lambda>tsi blob skipDigests certs.
        if EncryptedDigest tsi = blob then Inr example_tsa_cert
        else Inl (ErrOther ''signature mismatch''))\<rparr>"

definition example_tsi :: "attribute_list \<Rightarrow> signer_info" where
  "example_tsi aa = MkSignerInfo [1] aa [1, 2, 3] []"

definition example_token :: "bytes \<Rightarrow> signer_info list \<Rightarrow> content_info_signed_data" where
  "example_token content sis = MkContentInfoSignedData (MkSignedData content [] sis)"

definition example_sig :: "attribute_list \<Rightarrow> signature" where
  "example_sig ua =
     \<lparr>SignerInfo = MkSignerInfo [2] [] [1, 2, 3] ua, Certificate = example_signer_cert,
      Intermediates = []\<rparr>"

definition example_cs :: "time \<Rightarrow> counter_signature" where
  "example_cs t =
     \<lparr>cs_Signature = \<lparr>SignerInfo = example_tsi [(OidAttributeSigningTime, ValTime t)],
                       Certificate = example_tsa_cert, Intermediates = []\<rparr>,
      Hash = 5, SigningTime = t\<rparr>"

definition example_x509_Verify :: "time \<Rightarrow> certificate \<Rightarrow> verify_options \<Rightarrow> error + certificate list list" where
  "example_x509_Verify now cert opts =
     (let t = (if CurrentTime opts = zero_time then now else CurrentTime opts) in
      if t < NotBefore cert \<or> NotAfter cert < t then Inl (ErrOther ''certificate has expired or is not yet valid'')
      else if list_ex (\<lambda>u. u = ExtKeyUsageAny \<or> u \<in> set (ExtKeyUsage cert)) (KeyUsages opts) then
        (case find (\<lambda>r. Subject r = Issuer cert) (Roots opts) of
           None \<Rightarrow> Inl (ErrOther ''certificate signed by unknown authority'')
         | Some r \<Rightarrow> Inr [[cert, r]])
      else Inl (ErrOther ''certificate specifies an incompatible key usage''))"

definition example_Signature_VerifyChain ::
  "time \<Rightarrow> signature \<Rightarrow> certificate list \<Rightarrow> certificate list \<Rightarrow> ext_key_usage \<Rightarrow> time \<Rightarrow> error option" where
  "example_Signature_VerifyChain now sig roots extraCerts usage currentTime =
     (case example_x509_Verify now (Certificate sig)
             \<lparr>opt_Intermediates = extraCerts @ Intermediates sig, Roots = roots,
              CurrentTime = currentTime, KeyUsages = [usage]\<rparr> of
        Inl err \<Rightarrow> Some err
      | Inr _ \<Rightarrow> None)"

definition example_ps_env :: "(nat, bytes, bytes, bytes) ps_env" where
  "example_ps_env =
     \<lparr>GetSigStyle = (\<lambda>name. if name = ''ps1'' \<or> name = ''script.ps1'' then (1, True) else (0, False)),
      AllSigStyles = [''ps1'', ''ps1xml''],
      DigestPowershell = (\<lambda>r style hash. Inr r),
      Digest_Sign = (\<lambda>digest cert. Inr digest),
      Timestamp = (\<lambda>psd cert opts required.
        if required then Inl (ErrOther ''timestamp server unreachable'') else Inr psd),
      MakePatch = (\<lambda>digest blob. Inr blob),
      SetBinPatch = (\<lambda>opts patch. Inr patch),
      VerifyPowershell = (\<lambda>f style noDigests. Inl (ErrOther ''no signature found'')),
      ps_PkixDigestToHash = (\<lambda>alg. (0, False))\<rparr>"

definition example_opts :: "string \<Rightarrow> (string \<rightharpoonup> string) \<Rightarrow> sign_opts" where
  "example_opts path flags = \<lparr>Path = path, opts_Hash = 5, Flags = flags\<rparr>"

section \<open>Lookups\<close>

lemma map_of_filter_same: "map_of (filter (\<lambda>a. fst a = k) l) k = map_of l k"
  by (induction l) auto

lemma map_of_filter_other: "k' \<noteq> k \<Longrightarrow> map_of (filter (\<lambda>a. fst a = k) l) k' = None"
  by (induction l) auto

lemma GetOne_absent: "map_of l k = None \<Longrightarrow> GetOne l k u = Inl (ErrNoAttribute k)"
  by (simp add: GetOne_def)

lemma GetOne_present_not_absent:
  "map_of l k \<noteq> None \<Longrightarrow> GetOne l k u = Inl e \<Longrightarrow> \<not> is_ErrNoAttribute e"
  by (auto simp: GetOne_def split: option.splits)

text \<open>What the lookups of \<open>VerifyTimestamp\<close> hand on when a token is found.\<close>

lemma locate_timestamp_token:
  assumes "token_found sig tst"
  shows "locate_timestamp env sig =
     (case SignerInfos (Content tst) of
        [tsi] \<Rightarrow>
          (case Parse env (Certificates (Content tst)) of
             Inl e \<Rightarrow> Inl e
           | Inr tsicerts \<Rightarrow>
               (case UnpackTokenInfo env tst of
                  Inl e \<Rightarrow> Inl e
                | Inr tstinfo \<Rightarrow>
                    (case MessageImprint_Verify env (MessageImprint tstinfo) (EncryptedDigest (SignerInfo sig)) of
                       Some verr \<Rightarrow> Inl (Errorf ''failed to verify timestamp imprint: '' verr)
                     | None \<Rightarrow>
                         (case ContentInfo_Bytes env (ContentInfo (Content tst)) of
                            Inl e \<Rightarrow> Inl e
                          | Inr verifyBlob \<Rightarrow>
                              Inr (tsi, verifyBlob,
                                   fst (PkixDigestToHash env (HashAlgorithm (MessageImprint tstinfo))),
                                   (if length tsicerts \<noteq> 0 then Intermediates sig @ tsicerts
                                    else Intermediates sig))))))
      | _ \<Rightarrow> Inl (ErrNew ''timestamp should have exactly one SignerInfo''))"
proof -
  let ?ua = "UnauthenticatedAttributes (SignerInfo sig)"
  from assms consider
      (std) "GetOne ?ua OidAttributeTimeStampToken as_signed_data = Inr tst"
    | (spc) "GetOne ?ua OidAttributeTimeStampToken as_signed_data = Inl (ErrNoAttribute OidAttributeTimeStampToken)"
            "GetOne ?ua OidSpcTimeStampToken as_signed_data = Inr tst"
    by (auto simp: token_found_def unauth_def GetOne_def)
  then show ?thesis
  proof cases
    case std
    then show ?thesis
      by (simp add: locate_timestamp_def Let_def split: list.split sum.split option.split)
  next
    case spc
    then show ?thesis
      by (simp add: locate_timestamp_def Let_def split: list.split sum.split option.split)
  qed
qed

text \<open>What they hand on with no attribute under either token identifier.\<close>

lemma locate_timestamp_legacy:
  assumes "map_of (unauth sig) OidAttributeTimeStampToken = None"
      and "map_of (unauth sig) OidSpcTimeStampToken = None"
  shows "locate_timestamp env sig =
     (case GetOne (unauth sig) OidAttributeCounterSign as_signer_info of
        Inl e \<Rightarrow> Inl e
      | Inr tsi \<Rightarrow>
          Inr (tsi, EncryptedDigest (SignerInfo sig),
               fst (PkixDigestToHash env (DigestAlgorithm (SignerInfo sig))), Intermediates sig))"
  using assms
  by (simp add: unauth_def locate_timestamp_def GetOne_def Let_def)

lemma unauth_example_sig: "unauth (example_sig ua) = ua"
  by (simp add: unauth_def example_sig_def)

text \<open>The definitions a concrete run of \<open>VerifyTimestamp\<close> unfolds.\<close>

lemmas eval_defs =
  VerifyTimestamp_def locate_timestamp_def GetOne_def MessageImprint_Verify_def
  example_env_def example_sig_def example_token_def example_tsi_def

section \<open>Structure of a timestamp token\<close>

text \<open>
  Claim C6. Whenever a timestamp token is found among the unauthenticated attributes (under
  the standard identifier or, failing that, the authenticode one), a token whose nested
  SignedData holds zero, two or more SignerInfos makes \<open>VerifyTimestamp\<close> fail with the
  error ``timestamp should have exactly one SignerInfo'', whatever the collaborators do.
\<close>

theorem wrong_signer_info_count:
  assumes "token_found sig tst" and "length (SignerInfos (Content tst)) \<noteq> 1"
  shows "VerifyTimestamp env sig = Inl (ErrNew ''timestamp should have exactly one SignerInfo'')"
proof -
  have "locate_timestamp env sig = Inl (ErrNew ''timestamp should have exactly one SignerInfo'')"
    using assms(2) by (auto simp: locate_timestamp_token [OF assms(1)] split: list.split)
  then show ?thesis by (simp add: VerifyTimestamp_def)
qed

text \<open>A token with two SignerInfos under the authenticode identifier, and one with none
  under the standard identifier.\<close>

theorem wrong_signer_info_count_witness:
  "token_found (example_sig [(OidSpcTimeStampToken,
       ValSignedData (example_token [1, 2, 3] [example_tsi [], example_tsi []]))])
     (example_token [1, 2, 3] [example_tsi [], example_tsi []]) \<and>
   length (SignerInfos (Content (example_token [1, 2, 3] [example_tsi [], example_tsi []]))) \<noteq> 1 \<and>
   VerifyTimestamp example_env (example_sig [(OidSpcTimeStampToken,
       ValSignedData (example_token [1, 2, 3] [example_tsi [], example_tsi []]))])
     = Inl (ErrNew ''timestamp should have exactly one SignerInfo'') \<and>
   token_found (example_sig [(OidAttributeTimeStampToken, ValSignedData (example_token [1, 2, 3] []))])
     (example_token [1, 2, 3] []) \<and>
   VerifyTimestamp example_env
     (example_sig [(OidAttributeTimeStampToken, ValSignedData (example_token [1, 2, 3] []))])
     = Inl (ErrNew ''timestamp should have exactly one SignerInfo'')"
proof -
  let ?two = "example_token [1, 2, 3] [example_tsi [], example_tsi []]"
  let ?none = "example_token [1, 2, 3] []"
  have f2: "token_found (example_sig [(OidSpcTimeStampToken, ValSignedData ?two)]) ?two"
    by (simp add: token_found_def unauth_example_sig)
  have l2: "length (SignerInfos (Content ?two)) \<noteq> 1"
    by (simp add: example_token_def)
  have f0: "token_found (example_sig [(OidAttributeTimeStampToken, ValSignedData ?none)]) ?none"
    by (simp add: token_found_def unauth_example_sig)
  have l0: "length (SignerInfos (Content ?none)) \<noteq> 1"
    by (simp add: example_token_def)
  show ?thesis
    using f2 l2 f0 wrong_signer_info_count [OF f2 l2, of example_env]
      wrong_signer_info_count [OF f0 l0, of example_env]
    by simp
qed

section \<open>The imprint of a timestamp token\<close>

text \<open>
  Claim C3. When a timestamp token is found, its MessageImprint is checked against the
  parent SignerInfo's raw encrypted digest: the digest of those bytes is recomputed under
  the imprint's own algorithm and compared with the imprint's hashed message. When the two
  differ, \<open>VerifyTimestamp\<close> returns an error and no CounterSignature; for a token that
  passed the earlier checks (one SignerInfo, certificates that parse) the error is
  ``failed to verify timestamp imprint'' wrapping the mismatch.
\<close>

theorem imprint_mismatch_is_error:
  assumes "token_found sig tst"
      and "UnpackTokenInfo env tst = Inr ti"
      and "hash_sum env (HashAlgorithm (MessageImprint ti)) (EncryptedDigest (SignerInfo sig))
             \<noteq> HashedMessage (MessageImprint ti)"
  shows "(\<exists>e. VerifyTimestamp env sig = Inl e) \<and>
         (\<forall>tsi tsicerts. SignerInfos (Content tst) = [tsi] \<and>
              Parse env (Certificates (Content tst)) = Inr tsicerts \<longrightarrow>
            VerifyTimestamp env sig =
              Inl (Errorf ''failed to verify timestamp imprint: '' (ErrNew ''digest check failed'')))"
proof -
  have v: "MessageImprint_Verify env (MessageImprint ti) (EncryptedDigest (SignerInfo sig))
             = Some (ErrNew ''digest check failed'')"
    using assms(3) by (simp add: MessageImprint_Verify_def)
  have "\<exists>e. locate_timestamp env sig = Inl e"
    using assms(2) v
    by (simp add: locate_timestamp_token [OF assms(1)] split: list.split sum.split)
  then have a: "\<exists>e. VerifyTimestamp env sig = Inl e"
    by (auto simp: VerifyTimestamp_def)
  have b: "VerifyTimestamp env sig =
             Inl (Errorf ''failed to verify timestamp imprint: '' (ErrNew ''digest check failed''))"
    if "SignerInfos (Content tst) = [tsi]" "Parse env (Certificates (Content tst)) = Inr tsicerts"
    for tsi tsicerts
    using that assms(2) v
    by (simp add: VerifyTimestamp_def locate_timestamp_token [OF assms(1)])
  from a b show ?thesis by blast
qed

text \<open>A token whose imprint is \<open>[9, 9]\<close> on a parent whose encrypted digest is \<open>[1, 2, 3]\<close>.\<close>

theorem imprint_mismatch_is_error_witness:
  "token_found (example_sig [(OidAttributeTimeStampToken,
       ValSignedData (example_token [9, 9] [example_tsi [(OidAttributeSigningTime, ValTime 1500)]]))])
     (example_token [9, 9] [example_tsi [(OidAttributeSigningTime, ValTime 1500)]]) \<and>
   UnpackTokenInfo example_env (example_token [9, 9] [example_tsi [(OidAttributeSigningTime, ValTime 1500)]])
     = Inr \<lparr>MessageImprint = \<lparr>HashAlgorithm = [1], HashedMessage = [9, 9]\<rparr>, GenTime = 1500\<rparr> \<and>
   hash_sum example_env [1] [1, 2, 3] \<noteq> [9, 9] \<and>
   VerifyTimestamp example_env (example_sig [(OidAttributeTimeStampToken,
       ValSignedData (example_token [9, 9] [example_tsi [(OidAttributeSigningTime, ValTime 1500)]]))])
     = Inl (Errorf ''failed to verify timestamp imprint: '' (ErrNew ''digest check failed''))"
proof -
  let ?tst = "example_token [9, 9] [example_tsi [(OidAttributeSigningTime, ValTime 1500)]]"
  let ?sig = "example_sig [(OidAttributeTimeStampToken, ValSignedData ?tst)]"
  let ?ti = "\<lparr>MessageImprint = \<lparr>HashAlgorithm = [1], HashedMessage = [9, 9]\<rparr>, GenTime = 1500\<rparr>"
  have f: "token_found ?sig ?tst"
    by (simp add: token_found_def unauth_example_sig)
  have u: "UnpackTokenInfo example_env ?tst = Inr ?ti"
    by (simp add: example_env_def example_token_def)
  have m: "hash_sum example_env (HashAlgorithm (MessageImprint ?ti)) (EncryptedDigest (SignerInfo ?sig))
             \<noteq> HashedMessage (MessageImprint ?ti)"
    by (simp add: example_env_def example_sig_def)
  have s: "SignerInfos (Content ?tst) = [example_tsi [(OidAttributeSigningTime, ValTime 1500)]]"
    by (simp add: example_token_def)
  have p: "Parse example_env (Certificates (Content ?tst)) = Inr []"
    by (simp add: example_env_def)
  have h: "hash_sum example_env [1] [1, 2, 3] \<noteq> [9, 9]"
    by (simp add: example_env_def)
  show ?thesis
    using f u h s p imprint_mismatch_is_error [OF f u m]
    by simp
qed

text \<open>Conversely, a CounterSignature comes out of a token only if the token's imprint is
  the digest of the parent's encrypted digest.\<close>

lemma counter_signature_has_matching_imprint:
  assumes "token_found sig tst" and "VerifyTimestamp env sig = Inr cs"
  shows "\<exists>ti. UnpackTokenInfo env tst = Inr ti \<and>
           hash_sum env (HashAlgorithm (MessageImprint ti)) (EncryptedDigest (SignerInfo sig))
             = HashedMessage (MessageImprint ti)"
proof (cases "UnpackTokenInfo env tst")
  case (Inl e)
  then have "\<exists>e. locate_timestamp env sig = Inl e"
    by (simp add: locate_timestamp_token [OF assms(1)] split: list.split sum.split)
  with assms(2) show ?thesis by (auto simp: VerifyTimestamp_def)
next
  case (Inr ti)
  show ?thesis
  proof (rule ccontr)
    assume "\<not> ?thesis"
    with Inr have m: "MessageImprint_Verify env (MessageImprint ti) (EncryptedDigest (SignerInfo sig))
             = Some (ErrNew ''digest check failed'')"
      by (simp add: MessageImprint_Verify_def)
    have "\<exists>e. locate_timestamp env sig = Inl e"
      using Inr m by (simp add: locate_timestamp_token [OF assms(1)] split: list.split sum.split)
    with assms(2) show False by (auto simp: VerifyTimestamp_def)
  qed
qed

section \<open>No timestamp at all\<close>

text \<open>
  Claim C7, as stated, at a SignerInfo with no unauthenticated attribute: \<open>VerifyTimestamp\<close>
  does return an error, the \<open>ErrNoAttribute\<close> of its last lookup (line 97).
\<close>

theorem absence_is_an_error_of_VerifyTimestamp:
  "map_of (unauth (example_sig [])) OidAttributeTimeStampToken = None \<and>
   map_of (unauth (example_sig [])) OidSpcTimeStampToken = None \<and>
   map_of (unauth (example_sig [])) OidAttributeCounterSign = None \<and>
   VerifyTimestamp example_env (example_sig []) = Inl (ErrNoAttribute OidAttributeCounterSign)"
proof -
  have "VerifyTimestamp example_env (example_sig []) = Inl (ErrNoAttribute OidAttributeCounterSign)"
    by (simp add: VerifyTimestamp_def locate_timestamp_def GetOne_def example_sig_def)
  then show ?thesis by (simp add: unauth_example_sig)
qed

text \<open>
  Claim C7, amended. For every signature whose SignerInfo carries none of the three
  timestamp attributes, \<open>VerifyTimestamp\<close> returns no CounterSignature and the error
  \<open>ErrNoAttribute\<close> for the counter-signature identifier; it is \<open>VerifyOptionalTimestamp\<close>
  that turns this into a result without error, the signature with no CounterSignature.
\<close>

theorem no_timestamp_attribute:
  assumes "map_of (unauth sig) OidAttributeTimeStampToken = None"
      and "map_of (unauth sig) OidSpcTimeStampToken = None"
      and "map_of (unauth sig) OidAttributeCounterSign = None"
  shows "VerifyTimestamp env sig = Inl (ErrNoAttribute OidAttributeCounterSign) \<and>
         VerifyOptionalTimestamp env sig = (\<lparr>ts_Signature = sig, CounterSignature = None\<rparr>, None)"
proof -
  have "locate_timestamp env sig = Inl (ErrNoAttribute OidAttributeCounterSign)"
    using assms(3) by (simp add: locate_timestamp_legacy [OF assms(1,2)] GetOne_absent)
  then have "VerifyTimestamp env sig = Inl (ErrNoAttribute OidAttributeCounterSign)"
    by (simp add: VerifyTimestamp_def)
  then show ?thesis by (simp add: VerifyOptionalTimestamp_def)
qed

theorem no_timestamp_attribute_witness:
  "map_of (unauth (example_sig [(OidOther [1, 2], ValRaw [7])])) OidAttributeTimeStampToken = None \<and>
   map_of (unauth (example_sig [(OidOther [1, 2], ValRaw [7])])) OidSpcTimeStampToken = None \<and>
   map_of (unauth (example_sig [(OidOther [1, 2], ValRaw [7])])) OidAttributeCounterSign = None \<and>
   VerifyTimestamp example_env (example_sig [(OidOther [1, 2], ValRaw [7])])
     = Inl (ErrNoAttribute OidAttributeCounterSign) \<and>
   VerifyOptionalTimestamp example_env (example_sig [(OidOther [1, 2], ValRaw [7])])
     = (\<lparr>ts_Signature = example_sig [(OidOther [1, 2], ValRaw [7])], CounterSignature = None\<rparr>, None)"
proof -
  let ?sig = "example_sig [(OidOther [1, 2], ValRaw [7])]"
  have a: "map_of (unauth ?sig) OidAttributeTimeStampToken = None"
    and b: "map_of (unauth ?sig) OidSpcTimeStampToken = None"
    and c: "map_of (unauth ?sig) OidAttributeCounterSign = None"
    by (simp_all add: unauth_example_sig)
  show ?thesis
    using a b c no_timestamp_attribute [OF a b c, of example_env] by simp
qed

section \<open>A timestamp without signing time\<close>

text \<open>\<open>VerifyOptionalTimestamp\<close> drops every error of type \<open>ErrNoAttribute\<close>, wherever in
  \<open>VerifyTimestamp\<close> it arose.\<close>

lemma VerifyOptionalTimestamp_folds_ErrNoAttribute:
  "VerifyTimestamp env sig = Inl e \<Longrightarrow> is_ErrNoAttribute e \<Longrightarrow>
   VerifyOptionalTimestamp env sig = (\<lparr>ts_Signature = sig, CounterSignature = None\<rparr>, None)"
  by (simp add: VerifyOptionalTimestamp_def)

text \<open>So it drops the failure of the signing-time lookup of whatever token passed every
  check before it.\<close>

lemma missing_signing_time_in_general:
  assumes "token_found sig tst"
      and "SignerInfos (Content tst) = [tsi]"
      and "Parse env (Certificates (Content tst)) = Inr tsicerts"
      and "UnpackTokenInfo env tst = Inr ti"
      and "MessageImprint_Verify env (MessageImprint ti) (EncryptedDigest (SignerInfo sig)) = None"
      and "ContentInfo_Bytes env (ContentInfo (Content tst)) = Inr verifyBlob"
      and "SignerInfo_Verify env tsi verifyBlob False
             (if length tsicerts \<noteq> 0 then Intermediates sig @ tsicerts else Intermediates sig) = Inr cert"
      and "map_of (AuthenticatedAttributes tsi) OidAttributeSigningTime = None"
  shows "VerifyTimestamp env sig = Inl (ErrNoAttribute OidAttributeSigningTime) \<and>
         VerifyOptionalTimestamp env sig = (\<lparr>ts_Signature = sig, CounterSignature = None\<rparr>, None)"
proof -
  have "locate_timestamp env sig =
          Inr (tsi, verifyBlob, fst (PkixDigestToHash env (HashAlgorithm (MessageImprint ti))),
               (if length tsicerts \<noteq> 0 then Intermediates sig @ tsicerts else Intermediates sig))"
    using assms(2-6) by (simp add: locate_timestamp_token [OF assms(1)])
  then have "VerifyTimestamp env sig = Inl (ErrNoAttribute OidAttributeSigningTime)"
    using assms(7,8) by (simp add: VerifyTimestamp_def GetOne_absent)
  then show ?thesis by (simp add: VerifyOptionalTimestamp_def)
qed

text \<open>
  Claim C1. A signature carries a standard timestamp token whose imprint matches the
  parent's encrypted digest and whose nested signature verifies, but whose nested
  SignerInfo has no signing-time attribute. \<open>VerifyTimestamp\<close> fails, with the
  \<open>ErrNoAttribute\<close> of the signing-time lookup (line 112); \<open>VerifyOptionalTimestamp\<close> takes
  that error for the absence of a timestamp and returns the signature with no
  CounterSignature and no error, where the claim has the error propagate.
\<close>

theorem missing_signing_time_is_folded:
  "UnpackTokenInfo example_env (example_token [1, 2, 3] [example_tsi []])
     = Inr \<lparr>MessageImprint = \<lparr>HashAlgorithm = [1], HashedMessage = [1, 2, 3]\<rparr>, GenTime = 1500\<rparr> \<and>
   MessageImprint_Verify example_env \<lparr>HashAlgorithm = [1], HashedMessage = [1, 2, 3]\<rparr>
     (EncryptedDigest (SignerInfo (example_sig [(OidAttributeTimeStampToken,
        ValSignedData (example_token [1, 2, 3] [example_tsi []]))]))) = None \<and>
   SignerInfo_Verify example_env (example_tsi []) [1, 2, 3] False [] = Inr example_tsa_cert \<and>
   map_of (AuthenticatedAttributes (example_tsi [])) OidAttributeSigningTime = None \<and>
   VerifyTimestamp example_env
     (example_sig [(OidAttributeTimeStampToken, ValSignedData (example_token [1, 2, 3] [example_tsi []]))])
     = Inl (ErrNoAttribute OidAttributeSigningTime) \<and>
   VerifyOptionalTimestamp example_env
     (example_sig [(OidAttributeTimeStampToken, ValSignedData (example_token [1, 2, 3] [example_tsi []]))])
     = (\<lparr>ts_Signature = example_sig [(OidAttributeTimeStampToken,
            ValSignedData (example_token [1, 2, 3] [example_tsi []]))],
         CounterSignature = None\<rparr>, None)"
proof -
  let ?tst = "example_token [1, 2, 3] [example_tsi []]"
  let ?sig = "example_sig [(OidAttributeTimeStampToken, ValSignedData ?tst)]"
  have v: "VerifyTimestamp example_env ?sig = Inl (ErrNoAttribute OidAttributeSigningTime)"
    by (simp add: eval_defs)
  have o: "VerifyOptionalTimestamp example_env ?sig = (\<lparr>ts_Signature = ?sig, CounterSignature = None\<rparr>, None)"
    by (simp add: VerifyOptionalTimestamp_def v)
  have u: "UnpackTokenInfo example_env ?tst
     = Inr \<lparr>MessageImprint = \<lparr>HashAlgorithm = [1], HashedMessage = [1, 2, 3]\<rparr>, GenTime = 1500\<rparr>"
    by (simp add: example_env_def example_token_def)
  have m: "MessageImprint_Verify example_env \<lparr>HashAlgorithm = [1], HashedMessage = [1, 2, 3]\<rparr>
     (EncryptedDigest (SignerInfo ?sig)) = None"
    by (simp add: MessageImprint_Verify_def example_env_def example_sig_def)
  have s: "SignerInfo_Verify example_env (example_tsi []) [1, 2, 3] False [] = Inr example_tsa_cert"
    by (simp add: example_env_def example_tsi_def)
  have a: "map_of (AuthenticatedAttributes (example_tsi [])) OidAttributeSigningTime = None"
    by (simp add: example_tsi_def)
  from u m s a v o show ?thesis by simp
qed

section \<open>The legacy counter-signature\<close>

text \<open>
  Claim C8. With no attribute under either token identifier and a bare SignerInfo under the
  counter-signature identifier, the bytes handed to the nested SignerInfo's verification
  are the parent SignerInfo's raw encrypted digest itself (with the parent's intermediates
  as candidate certificates), and the CounterSignature returned has as hash the
  \<open>crypto.Hash\<close> of the parent SignerInfo's own digest algorithm.
\<close>

theorem legacy_counter_signature:
  assumes "map_of (unauth sig) OidAttributeTimeStampToken = None"
      and "map_of (unauth sig) OidSpcTimeStampToken = None"
      and "map_of (unauth sig) OidAttributeCounterSign = Some (ValSignerInfo tsi)"
  shows "VerifyTimestamp env sig =
     (case SignerInfo_Verify env tsi (EncryptedDigest (SignerInfo sig)) False (Intermediates sig) of
        Inl e \<Rightarrow> Inl e
      | Inr cert \<Rightarrow>
          (case GetOne (AuthenticatedAttributes tsi) OidAttributeSigningTime as_time of
             Inl e \<Rightarrow> Inl e
           | Inr signingTime \<Rightarrow>
               Inr \<lparr>cs_Signature = \<lparr>SignerInfo = tsi, Certificate = cert, Intermediates = Intermediates sig\<rparr>,
                    Hash = fst (PkixDigestToHash env (DigestAlgorithm (SignerInfo sig))),
                    SigningTime = signingTime\<rparr>))"
proof -
  have "GetOne (unauth sig) OidAttributeCounterSign as_signer_info = Inr tsi"
    using assms(3) by (simp add: GetOne_def)
  then have "locate_timestamp env sig =
      Inr (tsi, EncryptedDigest (SignerInfo sig),
           fst (PkixDigestToHash env (DigestAlgorithm (SignerInfo sig))), Intermediates sig)"
    by (simp add: locate_timestamp_legacy [OF assms(1,2)])
  then show ?thesis by (simp add: VerifyTimestamp_def)
qed

text \<open>A parent with digest algorithm \<open>[2]\<close>, which is the hash \<open>4\<close>.\<close>

theorem legacy_counter_signature_witness:
  "map_of (unauth (example_sig [(OidAttributeCounterSign,
      ValSignerInfo (example_tsi [(OidAttributeSigningTime, ValTime 1500)]))])) OidAttributeTimeStampToken = None \<and>
   map_of (unauth (example_sig [(OidAttributeCounterSign,
      ValSignerInfo (example_tsi [(OidAttributeSigningTime, ValTime 1500)]))])) OidSpcTimeStampToken = None \<and>
   map_of (unauth (example_sig [(OidAttributeCounterSign,
      ValSignerInfo (example_tsi [(OidAttributeSigningTime, ValTime 1500)]))])) OidAttributeCounterSign
     = Some (ValSignerInfo (example_tsi [(OidAttributeSigningTime, ValTime 1500)])) \<and>
   DigestAlgorithm (SignerInfo (example_sig [(OidAttributeCounterSign,
      ValSignerInfo (example_tsi [(OidAttributeSigningTime, ValTime 1500)]))])) = [2] \<and>
   PkixDigestToHash example_env [2] = (4, True) \<and>
   VerifyTimestamp example_env (example_sig [(OidAttributeCounterSign,
      ValSignerInfo (example_tsi [(OidAttributeSigningTime, ValTime 1500)]))])
     = Inr \<lparr>cs_Signature = \<lparr>SignerInfo = example_tsi [(OidAttributeSigningTime, ValTime 1500)],
                             Certificate = example_tsa_cert, Intermediates = []\<rparr>,
            Hash = 4, SigningTime = 1500\<rparr>"
proof -
  let ?tsi = "example_tsi [(OidAttributeSigningTime, ValTime 1500)]"
  let ?sig = "example_sig [(OidAttributeCounterSign, ValSignerInfo ?tsi)]"
  have a: "map_of (unauth ?sig) OidAttributeTimeStampToken = None"
    and b: "map_of (unauth ?sig) OidSpcTimeStampToken = None"
    and c: "map_of (unauth ?sig) OidAttributeCounterSign = Some (ValSignerInfo ?tsi)"
    by (simp_all add: unauth_example_sig)
  have d: "DigestAlgorithm (SignerInfo ?sig) = [2]" "EncryptedDigest (SignerInfo ?sig) = [1, 2, 3]"
    "Intermediates ?sig = []"
    by (simp_all add: example_sig_def)
  have e: "PkixDigestToHash example_env [2] = (4, True)"
    "SignerInfo_Verify example_env ?tsi [1, 2, 3] False [] = Inr example_tsa_cert"
    by (simp_all add: example_env_def example_tsi_def)
  have g: "GetOne (AuthenticatedAttributes ?tsi) OidAttributeSigningTime as_time = Inr 1500"
    by (simp add: GetOne_def example_tsi_def)
  show ?thesis
    using a b c d e g legacy_counter_signature [OF a b c, of example_env]
    by simp
qed

section \<open>Priority of the three attributes\<close>

lemma unauth_only_attribute: "unauth (only_attribute k sig) = filter (\<lambda>a. fst a = k) (unauth sig)"
  by (simp add: unauth_def only_attribute_def)

lemma only_attribute_fields:
  "EncryptedDigest (SignerInfo (only_attribute k sig)) = EncryptedDigest (SignerInfo sig)"
  "DigestAlgorithm (SignerInfo (only_attribute k sig)) = DigestAlgorithm (SignerInfo sig)"
  "Intermediates (only_attribute k sig) = Intermediates sig"
  by (simp_all add: only_attribute_def)

text \<open>
  The lookups read the signature through the three attributes, in order and only as far
  as needed, and through three fields.
\<close>

lemma locate_timestamp_cong:
  assumes "map_of (unauth sig') OidAttributeTimeStampToken = map_of (unauth sig) OidAttributeTimeStampToken"
      and "map_of (unauth sig) OidAttributeTimeStampToken = None \<Longrightarrow>
           map_of (unauth sig') OidSpcTimeStampToken = map_of (unauth sig) OidSpcTimeStampToken"
      and "map_of (unauth sig) OidAttributeTimeStampToken = None \<Longrightarrow>
           map_of (unauth sig) OidSpcTimeStampToken = None \<Longrightarrow>
           map_of (unauth sig') OidAttributeCounterSign = map_of (unauth sig) OidAttributeCounterSign"
      and "EncryptedDigest (SignerInfo sig') = EncryptedDigest (SignerInfo sig)"
      and "DigestAlgorithm (SignerInfo sig') = DigestAlgorithm (SignerInfo sig)"
      and "Intermediates sig' = Intermediates sig"
  shows "locate_timestamp env sig' = locate_timestamp env sig"
proof (cases "map_of (unauth sig) OidAttributeTimeStampToken")
  case None
  note std = this
  show ?thesis
  proof (cases "map_of (unauth sig) OidSpcTimeStampToken")
    case None
    have 1: "map_of (unauth sig') OidAttributeTimeStampToken = None"
      using assms(1) std by simp
    have 2: "map_of (unauth sig') OidSpcTimeStampToken = None"
      using assms(2) std None by simp
    show ?thesis
      using assms(3) [OF std None] assms(4,5,6)
      by (simp add: locate_timestamp_legacy [OF std None] locate_timestamp_legacy [OF 1 2] GetOne_def
            split: option.split)
  next
    case (Some v)
    have 1: "map_of (unauth sig') OidAttributeTimeStampToken = None"
      using assms(1) std by simp
    have 2: "map_of (unauth sig') OidSpcTimeStampToken = Some v"
      using assms(2) std Some by simp
    show ?thesis
    proof (cases "as_signed_data v")
      case None
      then show ?thesis using std Some 1 2
        by (simp add: locate_timestamp_def unauth_def GetOne_def)
    next
      case (Some tst)
      then have v: "v = ValSignedData tst" by (cases v) simp_all
      have f: "token_found sig tst" using std \<open>map_of (unauth sig) OidSpcTimeStampToken = Some v\<close> v
        by (simp add: token_found_def)
      have f': "token_found sig' tst" using 1 2 v
        by (simp add: token_found_def)
      show ?thesis
        by (simp add: locate_timestamp_token [OF f] locate_timestamp_token [OF f'] assms(4,6)
              split: list.split sum.split option.split)
    qed
  qed
next
  case (Some v)
  then have 1: "map_of (unauth sig') OidAttributeTimeStampToken = Some v"
    using assms(1) by simp
  show ?thesis
  proof (cases "as_signed_data v")
    case None
    then show ?thesis using Some 1
      by (simp add: locate_timestamp_def unauth_def GetOne_def)
  next
    case (Some tst)
    then have v: "v = ValSignedData tst" by (cases v) simp_all
    have f: "token_found sig tst" using \<open>map_of (unauth sig) OidAttributeTimeStampToken = Some v\<close> v
      by (simp add: token_found_def)
    have f': "token_found sig' tst" using 1 v
      by (simp add: token_found_def)
    show ?thesis
      by (simp add: locate_timestamp_token [OF f] locate_timestamp_token [OF f'] assms(4,6)
              split: list.split sum.split option.split)
  qed
qed

text \<open>
  With an attribute under the standard identifier, \<open>VerifyTimestamp\<close> returns what it
  returns when every other unauthenticated attribute is removed; with none there and one
  under the authenticode identifier, only that one counts; with neither, only the
  counter-signature attribute does.
\<close>

lemma VerifyTimestamp_ignores_other_attributes:
  "(map_of (unauth sig) OidAttributeTimeStampToken \<noteq> None \<longrightarrow>
      VerifyTimestamp env sig = VerifyTimestamp env (only_attribute OidAttributeTimeStampToken sig)) \<and>
   (map_of (unauth sig) OidAttributeTimeStampToken = None \<and>
    map_of (unauth sig) OidSpcTimeStampToken \<noteq> None \<longrightarrow>
      VerifyTimestamp env sig = VerifyTimestamp env (only_attribute OidSpcTimeStampToken sig)) \<and>
   (map_of (unauth sig) OidAttributeTimeStampToken = None \<and>
    map_of (unauth sig) OidSpcTimeStampToken = None \<longrightarrow>
      VerifyTimestamp env sig = VerifyTimestamp env (only_attribute OidAttributeCounterSign sig))"
proof -
  have a: "locate_timestamp env (only_attribute OidAttributeTimeStampToken sig) = locate_timestamp env sig"
    if "map_of (unauth sig) OidAttributeTimeStampToken \<noteq> None"
    using that
    by (intro locate_timestamp_cong)
       (simp_all add: unauth_only_attribute only_attribute_fields map_of_filter_same)
  have b: "locate_timestamp env (only_attribute OidSpcTimeStampToken sig) = locate_timestamp env sig"
    if "map_of (unauth sig) OidAttributeTimeStampToken = None" "map_of (unauth sig) OidSpcTimeStampToken \<noteq> None"
    using that
    by (intro locate_timestamp_cong)
       (simp_all add: unauth_only_attribute only_attribute_fields map_of_filter_same map_of_filter_other)
  have c: "locate_timestamp env (only_attribute OidAttributeCounterSign sig) = locate_timestamp env sig"
    if "map_of (unauth sig) OidAttributeTimeStampToken = None" "map_of (unauth sig) OidSpcTimeStampToken = None"
    using that
    by (intro locate_timestamp_cong)
       (simp_all add: unauth_only_attribute only_attribute_fields map_of_filter_same map_of_filter_other)
  show ?thesis
    using a b c by (simp add: VerifyTimestamp_def)
qed

text \<open>\<open>VerifyTimestamp\<close> against the steps of the specification's algorithm.\<close>

lemma VerifyTimestamp_spec_counter_signature:
  "locate_timestamp env sig = Inr (tsi, blob, hash, certs) \<Longrightarrow>
   VerifyTimestamp env sig = spec_counter_signature env tsi blob hash certs"
  by (auto simp: VerifyTimestamp_def spec_counter_signature_def GetOne_def
           split: sum.split option.split attribute_value.split)

lemma VerifyTimestamp_token_value:
  assumes "map_of (unauth sig) OidAttributeTimeStampToken = Some v \<or>
           (map_of (unauth sig) OidAttributeTimeStampToken = None \<and>
            map_of (unauth sig) OidSpcTimeStampToken = Some v)"
  shows "VerifyTimestamp env sig = spec_token_step env sig v"
proof (cases "as_signed_data v")
  case None
  then have v: "spec_token_step env sig v = Inl ErrUnmarshal"
    by (cases v) (simp_all add: spec_token_step_def)
  have "locate_timestamp env sig = Inl ErrUnmarshal"
    using assms None by (auto simp: locate_timestamp_def unauth_def GetOne_def)
  then show ?thesis by (simp add: VerifyTimestamp_def v)
next
  case (Some tst)
  then have v: "v = ValSignedData tst" by (cases v) simp_all
  have f: "token_found sig tst" using assms v by (simp add: token_found_def)
  show ?thesis
  proof (cases "locate_timestamp env sig")
    case (Inl e)
    then have "VerifyTimestamp env sig = Inl e" by (simp add: VerifyTimestamp_def)
    moreover have "spec_token_step env sig v = Inl e"
      using Inl unfolding locate_timestamp_token [OF f] v spec_token_step_def
      by (simp split: list.splits sum.splits option.splits)
    ultimately show ?thesis by simp
  next
    case (Inr r)
    obtain tsi blob hash certs where r: "r = (tsi, blob, hash, certs)" by (cases r) auto
    have "spec_token_step env sig v = spec_counter_signature env tsi blob hash certs"
      using Inr unfolding r locate_timestamp_token [OF f] v spec_token_step_def
      by (auto split: list.splits sum.splits option.splits if_splits)
    then show ?thesis
      using VerifyTimestamp_spec_counter_signature [of env sig tsi blob hash certs] Inr r by simp
  qed
qed

lemma VerifyTimestamp_legacy_value:
  assumes "map_of (unauth sig) OidAttributeTimeStampToken = None"
      and "map_of (unauth sig) OidSpcTimeStampToken = None"
      and "map_of (unauth sig) OidAttributeCounterSign = Some v"
  shows "VerifyTimestamp env sig = spec_legacy_step env sig v"
proof (cases "as_signer_info v")
  case None
  then have v: "spec_legacy_step env sig v = Inl ErrUnmarshal"
    by (cases v) (simp_all add: spec_legacy_step_def)
  have "locate_timestamp env sig = Inl ErrUnmarshal"
    using assms(3) None by (simp add: locate_timestamp_legacy [OF assms(1,2)] GetOne_def)
  then show ?thesis by (simp add: VerifyTimestamp_def v)
next
  case (Some tsi)
  then have v: "v = ValSignerInfo tsi" by (cases v) simp_all
  have "locate_timestamp env sig =
      Inr (tsi, EncryptedDigest (SignerInfo sig),
           fst (PkixDigestToHash env (DigestAlgorithm (SignerInfo sig))), Intermediates sig)"
    using assms(3) v by (simp add: locate_timestamp_legacy [OF assms(1,2)] GetOne_def)
  then show ?thesis
    by (simp add: VerifyTimestamp_spec_counter_signature v spec_legacy_step_def)
qed

text \<open>
  Claim C2. \<open>VerifyTimestamp\<close> is the specification's ordered lookup: on every signature
  and for all collaborators it returns what the table returns that tries the standard
  timestamp-token identifier first, then the authenticode one, then the counter-signature,
  the first attribute present deciding and the later entries not being consulted. In
  particular, with both a standard and an authenticode attribute the result is that of the
  token step on the standard attribute's value.
\<close>

theorem timestamp_priority:
  "VerifyTimestamp env sig = spec_verifyTimestamp env sig \<and>
   (map_of (unauth sig) OidAttributeTimeStampToken = Some std \<and>
    map_of (unauth sig) OidSpcTimeStampToken = Some spc \<longrightarrow>
      VerifyTimestamp env sig = spec_token_step env sig std)"
proof -
  have a: "VerifyTimestamp env sig = spec_verifyTimestamp env sig"
  proof (cases "map_of (unauth sig) OidAttributeTimeStampToken")
    case (Some v)
    then show ?thesis
      by (simp add: VerifyTimestamp_token_value spec_verifyTimestamp_def)
  next
    case std: None
    show ?thesis
    proof (cases "map_of (unauth sig) OidSpcTimeStampToken")
      case (Some v)
      with std show ?thesis
        by (simp add: VerifyTimestamp_token_value spec_verifyTimestamp_def)
    next
      case spc: None
      show ?thesis
      proof (cases "map_of (unauth sig) OidAttributeCounterSign")
        case (Some v)
        with std spc show ?thesis
          by (simp add: VerifyTimestamp_legacy_value spec_verifyTimestamp_def)
      next
        case None
        have "locate_timestamp env sig = Inl (ErrNoAttribute OidAttributeCounterSign)"
          using None by (simp add: locate_timestamp_legacy [OF std spc] GetOne_absent)
        with std spc None show ?thesis
          by (simp add: VerifyTimestamp_def spec_verifyTimestamp_def)
      qed
    qed
  qed
  have b: "VerifyTimestamp env sig = spec_token_step env sig std"
    if "map_of (unauth sig) OidAttributeTimeStampToken = Some std"
    using that by (simp add: VerifyTimestamp_token_value)
  from a b show ?thesis by blast
qed

text \<open>
  A SignerInfo with an authenticode token, a counter-signature and a standard token (signing
  times 1600, 1700 and 1500) gives the CounterSignature of 1500; without the standard
  token, that of 1600; with the counter-signature only, that of 1700, with the parent's
  hash; with none of the three, the attribute-not-found error.
\<close>

theorem timestamp_priority_witness:
  "map_of (unauth (example_sig
      [(OidSpcTimeStampToken, ValSignedData (example_token [1, 2, 3] [example_tsi [(OidAttributeSigningTime, ValTime 1600)]])),
       (OidAttributeCounterSign, ValSignerInfo (example_tsi [(OidAttributeSigningTime, ValTime 1700)])),
       (OidAttributeTimeStampToken, ValSignedData (example_token [1, 2, 3] [example_tsi [(OidAttributeSigningTime, ValTime 1500)]]))]))
     OidAttributeTimeStampToken
     = Some (ValSignedData (example_token [1, 2, 3] [example_tsi [(OidAttributeSigningTime, ValTime 1500)]])) \<and>
   map_of (unauth (example_sig
      [(OidSpcTimeStampToken, ValSignedData (example_token [1, 2, 3] [example_tsi [(OidAttributeSigningTime, ValTime 1600)]])),
       (OidAttributeCounterSign, ValSignerInfo (example_tsi [(OidAttributeSigningTime, ValTime 1700)])),
       (OidAttributeTimeStampToken, ValSignedData (example_token [1, 2, 3] [example_tsi [(OidAttributeSigningTime, ValTime 1500)]]))]))
     OidSpcTimeStampToken
     = Some (ValSignedData (example_token [1, 2, 3] [example_tsi [(OidAttributeSigningTime, ValTime 1600)]])) \<and>
   VerifyTimestamp example_env (example_sig
      [(OidSpcTimeStampToken, ValSignedData (example_token [1, 2, 3] [example_tsi [(OidAttributeSigningTime, ValTime 1600)]])),
       (OidAttributeCounterSign, ValSignerInfo (example_tsi [(OidAttributeSigningTime, ValTime 1700)])),
       (OidAttributeTimeStampToken, ValSignedData (example_token [1, 2, 3] [example_tsi [(OidAttributeSigningTime, ValTime 1500)]]))])
     = spec_token_step example_env (example_sig
      [(OidSpcTimeStampToken, ValSignedData (example_token [1, 2, 3] [example_tsi [(OidAttributeSigningTime, ValTime 1600)]])),
       (OidAttributeCounterSign, ValSignerInfo (example_tsi [(OidAttributeSigningTime, ValTime 1700)])),
       (OidAttributeTimeStampToken, ValSignedData (example_token [1, 2, 3] [example_tsi [(OidAttributeSigningTime, ValTime 1500)]]))])
       (ValSignedData (example_token [1, 2, 3] [example_tsi [(OidAttributeSigningTime, ValTime 1500)]])) \<and>
   VerifyTimestamp example_env (example_sig
      [(OidSpcTimeStampToken, ValSignedData (example_token [1, 2, 3] [example_tsi [(OidAttributeSigningTime, ValTime 1600)]])),
       (OidAttributeCounterSign, ValSignerInfo (example_tsi [(OidAttributeSigningTime, ValTime 1700)])),
       (OidAttributeTimeStampToken, ValSignedData (example_token [1, 2, 3] [example_tsi [(OidAttributeSigningTime, ValTime 1500)]]))])
     = Inr \<lparr>cs_Signature = \<lparr>SignerInfo = example_tsi [(OidAttributeSigningTime, ValTime 1500)],
                             Certificate = example_tsa_cert, Intermediates = []\<rparr>,
            Hash = 5, SigningTime = 1500\<rparr> \<and>
   VerifyTimestamp example_env (example_sig
      [(OidAttributeCounterSign, ValSignerInfo (example_tsi [(OidAttributeSigningTime, ValTime 1700)])),
       (OidSpcTimeStampToken, ValSignedData (example_token [1, 2, 3] [example_tsi [(OidAttributeSigningTime, ValTime 1600)]]))])
     = Inr \<lparr>cs_Signature = \<lparr>SignerInfo = example_tsi [(OidAttributeSigningTime, ValTime 1600)],
                             Certificate = example_tsa_cert, Intermediates = []\<rparr>,
            Hash = 5, SigningTime = 1600\<rparr> \<and>
   VerifyTimestamp example_env (example_sig
      [(OidOther [1, 2], ValRaw [7]),
       (OidAttributeCounterSign, ValSignerInfo (example_tsi [(OidAttributeSigningTime, ValTime 1700)]))])
     = Inr \<lparr>cs_Signature = \<lparr>SignerInfo = example_tsi [(OidAttributeSigningTime, ValTime 1700)],
                             Certificate = example_tsa_cert, Intermediates = []\<rparr>,
            Hash = 4, SigningTime = 1700\<rparr> \<and>
   VerifyTimestamp example_env (example_sig [(OidOther [1, 2], ValRaw [7])])
     = Inl (ErrNoAttribute OidAttributeCounterSign)"
proof -
  let ?stdv = "ValSignedData (example_token [1, 2, 3] [example_tsi [(OidAttributeSigningTime, ValTime 1500)]])"
  let ?spcv = "ValSignedData (example_token [1, 2, 3] [example_tsi [(OidAttributeSigningTime, ValTime 1600)]])"
  let ?csv = "ValSignerInfo (example_tsi [(OidAttributeSigningTime, ValTime 1700)])"
  let ?std = "(OidAttributeTimeStampToken, ?stdv)"
  let ?spc = "(OidSpcTimeStampToken, ?spcv)"
  let ?cs = "(OidAttributeCounterSign, ?csv)"
  let ?other = "(OidOther [1, 2], ValRaw [7])"
  have fin: "spec_counter_signature example_env (example_tsi [(OidAttributeSigningTime, ValTime t)]) [1, 2, 3] h []
      = Inr \<lparr>cs_Signature = \<lparr>SignerInfo = example_tsi [(OidAttributeSigningTime, ValTime t)],
                             Certificate = example_tsa_cert, Intermediates = []\<rparr>,
            Hash = h, SigningTime = t\<rparr>" for t h
    by (simp add: spec_counter_signature_def example_env_def example_tsi_def)
  have tok: "spec_token_step example_env (example_sig ua)
        (ValSignedData (example_token [1, 2, 3] [example_tsi [(OidAttributeSigningTime, ValTime t)]]))
      = spec_counter_signature example_env (example_tsi [(OidAttributeSigningTime, ValTime t)]) [1, 2, 3] 5 []" for ua t
    by (simp add: spec_token_step_def example_token_def MessageImprint_Verify_def example_env_def
          example_sig_def)
  have leg: "spec_legacy_step example_env (example_sig ua)
        (ValSignerInfo (example_tsi [(OidAttributeSigningTime, ValTime t)]))
      = spec_counter_signature example_env (example_tsi [(OidAttributeSigningTime, ValTime t)]) [1, 2, 3] 4 []" for ua t
    by (simp add: spec_legacy_step_def example_env_def example_sig_def)
  have a: "map_of (unauth (example_sig [?spc, ?cs, ?std])) OidAttributeTimeStampToken = Some ?stdv"
    and b: "map_of (unauth (example_sig [?spc, ?cs, ?std])) OidSpcTimeStampToken = Some ?spcv"
    by (simp_all add: unauth_example_sig)
  have s1: "spec_verifyTimestamp example_env (example_sig [?spc, ?cs, ?std])
      = spec_counter_signature example_env (example_tsi [(OidAttributeSigningTime, ValTime 1500)]) [1, 2, 3] 5 []"
    by (simp add: spec_verifyTimestamp_def unauth_example_sig tok)
  have s2: "spec_verifyTimestamp example_env (example_sig [?cs, ?spc])
      = spec_counter_signature example_env (example_tsi [(OidAttributeSigningTime, ValTime 1600)]) [1, 2, 3] 5 []"
    by (simp add: spec_verifyTimestamp_def unauth_example_sig tok)
  have s3: "spec_verifyTimestamp example_env (example_sig [?other, ?cs])
      = spec_counter_signature example_env (example_tsi [(OidAttributeSigningTime, ValTime 1700)]) [1, 2, 3] 4 []"
    by (simp add: spec_verifyTimestamp_def unauth_example_sig leg)
  have s4: "spec_verifyTimestamp example_env (example_sig [?other]) = Inl (ErrNoAttribute OidAttributeCounterSign)"
    by (simp add: spec_verifyTimestamp_def unauth_example_sig)
  have v1: "VerifyTimestamp example_env (example_sig [?spc, ?cs, ?std])
      = Inr \<lparr>cs_Signature = \<lparr>SignerInfo = example_tsi [(OidAttributeSigningTime, ValTime 1500)],
                             Certificate = example_tsa_cert, Intermediates = []\<rparr>,
            Hash = 5, SigningTime = 1500\<rparr>"
    by (simp only: timestamp_priority [THEN conjunct1] s1 fin)
  have v2: "VerifyTimestamp example_env (example_sig [?cs, ?spc])
      = Inr \<lparr>cs_Signature = \<lparr>SignerInfo = example_tsi [(OidAttributeSigningTime, ValTime 1600)],
                             Certificate = example_tsa_cert, Intermediates = []\<rparr>,
            Hash = 5, SigningTime = 1600\<rparr>"
    by (simp only: timestamp_priority [THEN conjunct1] s2 fin)
  have v3: "VerifyTimestamp example_env (example_sig [?other, ?cs])
      = Inr \<lparr>cs_Signature = \<lparr>SignerInfo = example_tsi [(OidAttributeSigningTime, ValTime 1700)],
                             Certificate = example_tsa_cert, Intermediates = []\<rparr>,
            Hash = 4, SigningTime = 1700\<rparr>"
    by (simp only: timestamp_priority [THEN conjunct1] s3 fin)
  have v4: "VerifyTimestamp example_env (example_sig [?other]) = Inl (ErrNoAttribute OidAttributeCounterSign)"
    by (simp only: timestamp_priority [THEN conjunct1] s4)
  have p: "VerifyTimestamp example_env (example_sig [?spc, ?cs, ?std])
      = spec_token_step example_env (example_sig [?spc, ?cs, ?std]) ?stdv"
    using a b timestamp_priority [of example_env "example_sig [?spc, ?cs, ?std]" ?stdv ?spcv]
    by blast
  from a b p v1 v2 v3 v4 show ?thesis by blast
qed

section \<open>Chain validation of the timestamp\<close>

lemma fold_AddCert: "fold (\<lambda>cert pool. AddCert pool cert) certs pool = pool @ certs"
  by (induction certs arbitrary: pool) (simp_all add: AddCert_def)

text \<open>
  Claim C5. \<open>CounterSignature.VerifyChain\<close> validates the timestamp's certificate with
  the given roots, the pool of the extra certificates followed by the timestamp's
  intermediates, the time-stamping extended key usage, and the CounterSignature's
  \<open>SigningTime\<close> as the reference time handed to the validator; it fails exactly when the
  validator does at that reference time. What the validator says at any other reference
  time, the current time included, has no part in the outcome: a second validator that
  agrees with it at the signing time gives the same result. So a certificate that is
  accepted at the signing time passes, also when it has expired since.
\<close>

theorem counter_signature_chain_reference_time:
  "CounterSignature_VerifyChain x509_Verify cs roots extraCerts =
     (case x509_Verify (Certificate (cs_Signature cs))
             \<lparr>opt_Intermediates = extraCerts @ Intermediates (cs_Signature cs), Roots = roots,
              CurrentTime = SigningTime cs, KeyUsages = [ExtKeyUsageTimeStamping]\<rparr> of
        Inl err \<Rightarrow> Some err
      | Inr _ \<Rightarrow> None) \<and>
   ((\<forall>cert opts. CurrentTime opts = SigningTime cs \<and> KeyUsages opts = [ExtKeyUsageTimeStamping] \<and>
        Roots opts = roots \<longrightarrow> other_Verify cert opts = x509_Verify cert opts) \<longrightarrow>
    CounterSignature_VerifyChain other_Verify cs roots extraCerts =
      CounterSignature_VerifyChain x509_Verify cs roots extraCerts)"
proof -
  let ?opts = "\<lparr>opt_Intermediates = extraCerts @ Intermediates (cs_Signature cs), Roots = roots,
                 CurrentTime = SigningTime cs, KeyUsages = [ExtKeyUsageTimeStamping]\<rparr>"
  have eq: "CounterSignature_VerifyChain V cs roots extraCerts =
     (case V (Certificate (cs_Signature cs)) ?opts of Inl err \<Rightarrow> Some err | Inr _ \<Rightarrow> None)" for V
    by (simp add: CounterSignature_VerifyChain_def fold_AddCert NewCertPool_def)
  have "CounterSignature_VerifyChain other_Verify cs roots extraCerts =
      CounterSignature_VerifyChain x509_Verify cs roots extraCerts"
    if agree: "\<forall>cert opts. CurrentTime opts = SigningTime cs \<and> KeyUsages opts = [ExtKeyUsageTimeStamping] \<and>
        Roots opts = roots \<longrightarrow> other_Verify cert opts = x509_Verify cert opts"
  proof -
    have "other_Verify (Certificate (cs_Signature cs)) ?opts = x509_Verify (Certificate (cs_Signature cs)) ?opts"
      using agree by simp
    then show ?thesis by (simp only: eq)
  qed
  with eq [of x509_Verify] show ?thesis by blast
qed

text \<open>
  The sample authority certificate is valid from 1000 to 2000. At clock 5000 it has
  expired, and a timestamp signed at 1500 still passes, as it does at clock 9000; a
  timestamp signed at 2500 fails even for a validator whose clock reads 1500.
\<close>

theorem counter_signature_chain_reference_time_witness:
  "NotAfter example_tsa_cert < 5000 \<and>
   example_x509_Verify 5000 example_tsa_cert
     \<lparr>opt_Intermediates = [], Roots = [example_root_cert], CurrentTime = 5000,
      KeyUsages = [ExtKeyUsageTimeStamping]\<rparr>
     = Inl (ErrOther ''certificate has expired or is not yet valid'') \<and>
   CounterSignature_VerifyChain (example_x509_Verify 5000) (example_cs 1500) [example_root_cert] [] = None \<and>
   CounterSignature_VerifyChain (example_x509_Verify 9000) (example_cs 1500) [example_root_cert] []
     = CounterSignature_VerifyChain (example_x509_Verify 5000) (example_cs 1500) [example_root_cert] [] \<and>
   CounterSignature_VerifyChain (example_x509_Verify 1500) (example_cs 2500) [example_root_cert] []
     = Some (ErrOther ''certificate has expired or is not yet valid'')"
proof -
  have a: "NotAfter example_tsa_cert < 5000"
    by (simp add: example_tsa_cert_def)
  have b: "example_x509_Verify now example_tsa_cert
     \<lparr>opt_Intermediates = [], Roots = [example_root_cert], CurrentTime = t,
      KeyUsages = [ExtKeyUsageTimeStamping]\<rparr>
     = (if t = 0 then (if now < 1000 \<or> 2000 < now then Inl (ErrOther ''certificate has expired or is not yet valid'') else Inr [[example_tsa_cert, example_root_cert]])
        else if t < 1000 \<or> 2000 < t then Inl (ErrOther ''certificate has expired or is not yet valid'') else Inr [[example_tsa_cert, example_root_cert]])" for now t
    by (simp add: example_x509_Verify_def example_tsa_cert_def example_root_cert_def zero_time_def Let_def)
  have c: "\<forall>cert opts. CurrentTime opts = SigningTime (example_cs 1500) \<and>
        KeyUsages opts = [ExtKeyUsageTimeStamping] \<and> Roots opts = [example_root_cert] \<longrightarrow>
      example_x509_Verify 9000 cert opts = example_x509_Verify 5000 cert opts"
    by (simp add: example_x509_Verify_def example_cs_def zero_time_def)
  show ?thesis
    using a c
      counter_signature_chain_reference_time [of "example_x509_Verify 5000" "example_cs 1500"
        "[example_root_cert]" "[]" "example_x509_Verify 9000"]
      counter_signature_chain_reference_time [of "example_x509_Verify 1500" "example_cs 2500"
        "[example_root_cert]" "[]" "example_x509_Verify 9000"]
    by (simp add: b example_cs_def)
qed

section \<open>Chain validation of a timestamped signature\<close>

text \<open>
  Claim C4. With a CounterSignature present, \<open>TimestampedSignature.VerifyChain\<close> first
  validates the timestamp's own chain; when that fails, the error returned is that failure
  wrapped as ``validating timestamp: ...'', and the main signature's chain is not
  consulted. Otherwise the main signature's chain is validated with the timestamp's
  signing time as reference time. With no CounterSignature the reference time handed over
  is the zero \<open>time.Time\<close>, by which Go asks for validation at the current time.
\<close>

theorem timestamped_signature_chain:
  "(CounterSignature ts = Some cs \<and>
      CounterSignature_VerifyChain x509_Verify cs roots extraCerts = Some err \<longrightarrow>
    TimestampedSignature_VerifyChain x509_Verify Signature_VerifyChain ts roots extraCerts usage
      = Some (Errorf ''validating timestamp: '' err)) \<and>
   (CounterSignature ts = Some cs \<and>
      CounterSignature_VerifyChain x509_Verify cs roots extraCerts = None \<longrightarrow>
    TimestampedSignature_VerifyChain x509_Verify Signature_VerifyChain ts roots extraCerts usage
      = Signature_VerifyChain (ts_Signature ts) roots extraCerts usage (SigningTime cs)) \<and>
   (CounterSignature ts = None \<longrightarrow>
    TimestampedSignature_VerifyChain x509_Verify Signature_VerifyChain ts roots extraCerts usage
      = Signature_VerifyChain (ts_Signature ts) roots extraCerts usage zero_time)"
  by (simp add: TimestampedSignature_VerifyChain_def)

text \<open>The sample validator on the two sample certificates, both valid from 1000 to 2000.\<close>

lemma example_x509_Verify_tsa:
  "example_x509_Verify now example_tsa_cert
     \<lparr>opt_Intermediates = pool, Roots = roots, CurrentTime = t, KeyUsages = [ExtKeyUsageTimeStamping]\<rparr>
   = (let t' = (if t = 0 then now else t) in
      if t' < 1000 \<or> 2000 < t' then Inl (ErrOther ''certificate has expired or is not yet valid'')
      else case find (\<lambda>r. Subject r = ''Root'') roots of
             None \<Rightarrow> Inl (ErrOther ''certificate signed by unknown authority'')
           | Some r \<Rightarrow> Inr [[example_tsa_cert, r]])"
  by (simp add: example_x509_Verify_def example_tsa_cert_def zero_time_def Let_def split: option.split)

lemma example_x509_Verify_signer:
  "example_x509_Verify now example_signer_cert
     \<lparr>opt_Intermediates = pool, Roots = roots, CurrentTime = t, KeyUsages = [ExtKeyUsageCodeSigning]\<rparr>
   = (let t' = (if t = 0 then now else t) in
      if t' < 1000 \<or> 2000 < t' then Inl (ErrOther ''certificate has expired or is not yet valid'')
      else case find (\<lambda>r. Subject r = ''Root'') roots of
             None \<Rightarrow> Inl (ErrOther ''certificate signed by unknown authority'')
           | Some r \<Rightarrow> Inr [[example_signer_cert, r]])"
  by (simp add: example_x509_Verify_def example_signer_cert_def zero_time_def Let_def split: option.split)

text \<open>
  At clock 5000, with a timestamp signed at 1500: without the root the timestamp's chain
  fails and the error names the timestamp; with the root both chains pass, the signer's
  certificate being judged at 1500; with no timestamp the signer's certificate is judged
  at the clock and has expired.
\<close>

theorem timestamped_signature_chain_witness:
  "CounterSignature \<lparr>ts_Signature = example_sig [], CounterSignature = Some (example_cs 1500)\<rparr>
     = Some (example_cs 1500) \<and>
   CounterSignature_VerifyChain (example_x509_Verify 5000) (example_cs 1500) [] []
     = Some (ErrOther ''certificate signed by unknown authority'') \<and>
   TimestampedSignature_VerifyChain (example_x509_Verify 5000) (example_Signature_VerifyChain 5000)
       \<lparr>ts_Signature = example_sig [], CounterSignature = Some (example_cs 1500)\<rparr>
       [] [] ExtKeyUsageCodeSigning
     = Some (Errorf ''validating timestamp: '' (ErrOther ''certificate signed by unknown authority'')) \<and>
   CounterSignature_VerifyChain (example_x509_Verify 5000) (example_cs 1500) [example_root_cert] [] = None \<and>
   TimestampedSignature_VerifyChain (example_x509_Verify 5000) (example_Signature_VerifyChain 5000)
       \<lparr>ts_Signature = example_sig [], CounterSignature = Some (example_cs 1500)\<rparr>
       [example_root_cert] [] ExtKeyUsageCodeSigning
     = example_Signature_VerifyChain 5000 (example_sig []) [example_root_cert] [] ExtKeyUsageCodeSigning 1500 \<and>
   example_Signature_VerifyChain 5000 (example_sig []) [example_root_cert] [] ExtKeyUsageCodeSigning 1500 = None \<and>
   CounterSignature \<lparr>ts_Signature = example_sig [], CounterSignature = None\<rparr> = None \<and>
   TimestampedSignature_VerifyChain (example_x509_Verify 5000) (example_Signature_VerifyChain 5000)
       \<lparr>ts_Signature = example_sig [], CounterSignature = None\<rparr>
       [example_root_cert] [] ExtKeyUsageCodeSigning
     = example_Signature_VerifyChain 5000 (example_sig []) [example_root_cert] [] ExtKeyUsageCodeSigning zero_time \<and>
   example_Signature_VerifyChain 5000 (example_sig []) [example_root_cert] [] ExtKeyUsageCodeSigning zero_time
     = Some (ErrOther ''certificate has expired or is not yet valid'')"
proof -
  let ?ts = "\<lparr>ts_Signature = example_sig [], CounterSignature = Some (example_cs 1500)\<rparr>"
  let ?plain = "\<lparr>ts_Signature = example_sig [], CounterSignature = None\<rparr>"
  have bad: "CounterSignature_VerifyChain (example_x509_Verify 5000) (example_cs 1500) [] []
     = Some (ErrOther ''certificate signed by unknown authority'')"
    by (simp add: CounterSignature_VerifyChain_def fold_AddCert NewCertPool_def example_cs_def
          example_x509_Verify_tsa)
  have good: "CounterSignature_VerifyChain (example_x509_Verify 5000) (example_cs 1500) [example_root_cert] [] = None"
    by (simp add: CounterSignature_VerifyChain_def fold_AddCert NewCertPool_def example_cs_def
          example_x509_Verify_tsa example_root_cert_def)
  have main: "example_Signature_VerifyChain 5000 (example_sig []) [example_root_cert] [] ExtKeyUsageCodeSigning 1500 = None"
    by (simp add: example_Signature_VerifyChain_def example_sig_def example_x509_Verify_signer
          example_root_cert_def)
  have late: "example_Signature_VerifyChain 5000 (example_sig []) [example_root_cert] [] ExtKeyUsageCodeSigning zero_time
     = Some (ErrOther ''certificate has expired or is not yet valid'')"
    by (simp add: example_Signature_VerifyChain_def example_sig_def example_x509_Verify_signer
          example_root_cert_def zero_time_def)
  have t: "SigningTime (example_cs 1500) = 1500"
    by (simp add: example_cs_def)
  show ?thesis
    using bad good main late t
      timestamped_signature_chain [of ?ts "example_cs 1500" "example_x509_Verify 5000" "[]" "[]"
        "ErrOther ''certificate signed by unknown authority''" "example_Signature_VerifyChain 5000"
        ExtKeyUsageCodeSigning]
      timestamped_signature_chain [of ?ts "example_cs 1500" "example_x509_Verify 5000" "[example_root_cert]" "[]"
        "ErrOther ''certificate signed by unknown authority''" "example_Signature_VerifyChain 5000"
        ExtKeyUsageCodeSigning]
      timestamped_signature_chain [of ?plain "example_cs 1500" "example_x509_Verify 5000" "[example_root_cert]" "[]"
        "ErrOther ''certificate signed by unknown authority''" "example_Signature_VerifyChain 5000"
        ExtKeyUsageCodeSigning]
    by simp
qed

section \<open>The PowerShell signer\<close>

lemma sign_resolves_style_name:
  "(if fst (GetString (Flags opts) ''ps-style'') = [] then Path opts
    else fst (GetString (Flags opts) ''ps-style'')) = style_name opts"
  by (simp add: GetString_def style_name_def split: option.split)

lemma getStyle_unresolved:
  "\<not> snd (GetSigStyle env name) \<Longrightarrow>
   getStyle env name = Inl (ErrNew (''unknown powershell style, expected: '' @ Join (AllSigStyles env) '' ''))"
  by (cases "GetSigStyle env name") (simp add: getStyle_def)

lemma sign_unfold:
  "sign env r cert opts =
     (case getStyle env (style_name opts) of
        Inl err \<Rightarrow> Inl err
      | Inr style \<Rightarrow>
          (case DigestPowershell env r style (opts_Hash opts) of
             Inl err \<Rightarrow> Inl err
           | Inr digest \<Rightarrow>
               (case Digest_Sign env digest cert of
                  Inl err \<Rightarrow> Inl err
                | Inr psd \<Rightarrow>
                    (case Timestamp env psd cert opts True of
                       Inl err \<Rightarrow> Inl err
                     | Inr blob \<Rightarrow>
                         (case MakePatch env digest blob of
                            Inl err \<Rightarrow> Inl err
                          | Inr patch \<Rightarrow> SetBinPatch env opts patch)))))"
  unfolding sign_def Let_def sign_resolves_style_name ..

text \<open>
  Claim C9. When the style registry does not resolve the name, \<open>sign\<close> (on the explicit
  style name when one is given, else on the artifact's path) and \<open>verify\<close> (on the
  file's name) fail with the ``unknown powershell style'' error. The error is the same
  whatever the digest engine, the envelope builder, the timestamper and the verifier would
  do: none of them is reached.
\<close>

theorem unresolved_style_fails:
  "(\<not> snd (GetSigStyle env (style_name opts)) \<longrightarrow>
      sign env r cert opts =
        Inl (ErrNew (''unknown powershell style, expected: '' @ Join (AllSigStyles env) '' ''))) \<and>
   (\<not> snd (GetSigStyle env (Name f)) \<longrightarrow>
      verify env f vopts =
        Inl (ErrNew (''unknown powershell style, expected: '' @ Join (AllSigStyles env) '' '')))"
proof -
  have a: "sign env r cert opts =
        Inl (ErrNew (''unknown powershell style, expected: '' @ Join (AllSigStyles env) '' ''))"
    if "\<not> snd (GetSigStyle env (style_name opts))"
    by (simp add: sign_unfold getStyle_unresolved [OF that])
  have b: "verify env f vopts =
        Inl (ErrNew (''unknown powershell style, expected: '' @ Join (AllSigStyles env) '' ''))"
    if "\<not> snd (GetSigStyle env (Name f))"
    by (simp add: verify_def getStyle_unresolved [OF that])
  from a b show ?thesis by blast
qed

lemma example_GetSigStyle:
  "GetSigStyle example_ps_env name = (if name = ''ps1'' \<or> name = ''script.ps1'' then (1, True) else (0, False))"
  by (simp add: example_ps_env_def)

text \<open>An unknown extension, an unknown explicit style on a known extension, and \<open>verify\<close>
  on an unknown extension.\<close>

theorem unresolved_style_fails_witness:
  "\<not> snd (GetSigStyle example_ps_env (style_name (example_opts ''notes.txt'' Map.empty))) \<and>
   sign example_ps_env [1, 2] 0 (example_opts ''notes.txt'' Map.empty)
     = Inl (ErrNew ''unknown powershell style, expected: ps1 ps1xml'') \<and>
   \<not> snd (GetSigStyle example_ps_env (style_name (example_opts ''script.ps1'' [''ps-style'' \<mapsto> ''bash'']))) \<and>
   sign example_ps_env [1, 2] 0 (example_opts ''script.ps1'' [''ps-style'' \<mapsto> ''bash''])
     = Inl (ErrNew ''unknown powershell style, expected: ps1 ps1xml'') \<and>
   \<not> snd (GetSigStyle example_ps_env (Name \<lparr>Name = ''notes.txt'', Data = [1, 2]\<rparr>)) \<and>
   verify example_ps_env \<lparr>Name = ''notes.txt'', Data = [1, 2]\<rparr> \<lparr>NoDigests = False\<rparr>
     = Inl (ErrNew ''unknown powershell style, expected: ps1 ps1xml'')"
proof -
  have n: "style_name (example_opts ''notes.txt'' Map.empty) = ''notes.txt''"
    "style_name (example_opts ''script.ps1'' [''ps-style'' \<mapsto> ''bash'']) = ''bash''"
    by (simp_all add: style_name_def example_opts_def)
  have a: "\<not> snd (GetSigStyle example_ps_env (style_name (example_opts ''notes.txt'' Map.empty)))"
    and b: "\<not> snd (GetSigStyle example_ps_env (style_name (example_opts ''script.ps1'' [''ps-style'' \<mapsto> ''bash''])))"
    and c: "\<not> snd (GetSigStyle example_ps_env (Name \<lparr>Name = ''notes.txt'', Data = [1, 2]\<rparr>))"
    by (simp_all add: n example_GetSigStyle)
  have j: "Join (AllSigStyles example_ps_env) '' '' = ''ps1 ps1xml''"
    by (simp add: example_ps_env_def)
  show ?thesis
    using a b c
      unresolved_style_fails [of example_ps_env "example_opts ''notes.txt'' Map.empty" "[1, 2]" 0
        "\<lparr>Name = ''notes.txt'', Data = [1, 2]\<rparr>" "\<lparr>NoDigests = False\<rparr>"]
      unresolved_style_fails [of example_ps_env "example_opts ''script.ps1'' [''ps-style'' \<mapsto> ''bash'']" "[1, 2]" 0
        "\<lparr>Name = ''notes.txt'', Data = [1, 2]\<rparr>" "\<lparr>NoDigests = False\<rparr>"]
    by (simp add: j)
qed

text \<open>
  Claim C10. \<open>sign\<close> calls the timestamper with \<open>required\<close> set: what the timestamper
  would do for an optional timestamp never changes the outcome of \<open>sign\<close>; whenever the
  required timestamp fails, \<open>sign\<close> fails with that error; and \<open>sign\<close> succeeds only if a
  required timestamp was obtained.
\<close>

theorem timestamp_is_required:
  "sign (env\<lparr>Timestamp := (\<lambda>psd cert opts required.
            if required then Timestamp env psd cert opts True else optional psd cert opts)\<rparr>) r cert opts
     = sign env r cert opts \<and>
   (getStyle env (style_name opts) = Inr style \<and>
    DigestPowershell env r style (opts_Hash opts) = Inr digest \<and>
    Digest_Sign env digest cert = Inr psd \<and>
    Timestamp env psd cert opts True = Inl err \<longrightarrow>
      sign env r cert opts = Inl err) \<and>
   (sign env r cert opts = Inr out \<longrightarrow>
      (\<exists>psd blob. Timestamp env psd cert opts True = Inr blob))"
proof -
  let ?env' = "env\<lparr>Timestamp := (\<lambda>psd cert opts required.
            if required then Timestamp env psd cert opts True else optional psd cert opts)\<rparr>"
  have g: "getStyle ?env' name = getStyle env name" for name
    by (simp add: getStyle_def split: prod.split)
  have a: "sign ?env' r cert opts = sign env r cert opts"
    unfolding sign_unfold g by (simp split: sum.split)
  have b: "sign env r cert opts = Inl err"
    if "getStyle env (style_name opts) = Inr style"
       "DigestPowershell env r style (opts_Hash opts) = Inr digest"
       "Digest_Sign env digest cert = Inr psd"
       "Timestamp env psd cert opts True = Inl err"
    using that by (simp add: sign_unfold)
  have c: "\<exists>psd blob. Timestamp env psd cert opts True = Inr blob"
    if "sign env r cert opts = Inr out"
  proof (cases "getStyle env (style_name opts)")
    case (Inl e)
    with that show ?thesis by (simp add: sign_unfold)
  next
    case style: (Inr style)
    show ?thesis
    proof (cases "DigestPowershell env r style (opts_Hash opts)")
      case (Inl e)
      with that style show ?thesis by (simp add: sign_unfold)
    next
      case digest: (Inr digest)
      show ?thesis
      proof (cases "Digest_Sign env digest cert")
        case (Inl e)
        with that style digest show ?thesis by (simp add: sign_unfold)
      next
        case psd: (Inr psd)
        show ?thesis
        proof (cases "Timestamp env psd cert opts True")
          case (Inl e)
          with that style digest psd show ?thesis by (simp add: sign_unfold)
        next
          case (Inr blob)
          then show ?thesis by blast
        qed
      qed
    qed
  qed
  from a b c show ?thesis by blast
qed

text \<open>
  A timestamper that fails when the timestamp is required and would pass the blob through
  otherwise makes \<open>sign\<close> fail; with one that succeeds, \<open>sign\<close> succeeds.
\<close>

theorem timestamp_is_required_witness:
  "getStyle example_ps_env (style_name (example_opts ''script.ps1'' Map.empty)) = Inr 1 \<and>
   DigestPowershell example_ps_env [1, 2] 1 (opts_Hash (example_opts ''script.ps1'' Map.empty)) = Inr [1, 2] \<and>
   Digest_Sign example_ps_env [1, 2] 0 = Inr [1, 2] \<and>
   Timestamp example_ps_env [1, 2] 0 (example_opts ''script.ps1'' Map.empty) True
     = Inl (ErrOther ''timestamp server unreachable'') \<and>
   Timestamp example_ps_env [1, 2] 0 (example_opts ''script.ps1'' Map.empty) False = Inr [1, 2] \<and>
   sign example_ps_env [1, 2] 0 (example_opts ''script.ps1'' Map.empty)
     = Inl (ErrOther ''timestamp server unreachable'') \<and>
   sign (example_ps_env\<lparr>Timestamp := \<lambda>psd cert opts required. Inr psd\<rparr>) [1, 2] 0
       (example_opts ''script.ps1'' Map.empty) = Inr [1, 2] \<and>
   (\<exists>psd blob. Timestamp (example_ps_env\<lparr>Timestamp := \<lambda>psd cert opts required. Inr psd\<rparr>) psd 0
       (example_opts ''script.ps1'' Map.empty) True = Inr blob)"
proof -
  let ?opts = "example_opts ''script.ps1'' Map.empty"
  let ?ok = "example_ps_env\<lparr>Timestamp := \<lambda>psd cert opts required. Inr psd\<rparr>"
  have n: "style_name ?opts = ''script.ps1''"
    by (simp add: style_name_def example_opts_def)
  have s: "getStyle example_ps_env (style_name ?opts) = Inr 1"
    by (simp add: n getStyle_def example_GetSigStyle)
  have d: "DigestPowershell example_ps_env [1, 2] 1 (opts_Hash ?opts) = Inr [1, 2]"
    and g: "Digest_Sign example_ps_env [1, 2] 0 = Inr [1, 2]"
    and t: "Timestamp example_ps_env [1, 2] 0 ?opts True = Inl (ErrOther ''timestamp server unreachable'')"
    and f: "Timestamp example_ps_env [1, 2] 0 ?opts False = Inr [1, 2]"
    by (simp_all add: example_ps_env_def)
  have s': "getStyle ?ok (style_name ?opts) = Inr 1"
    by (simp add: n getStyle_def example_ps_env_def)
  have ok: "sign ?ok [1, 2] 0 ?opts = Inr [1, 2]"
    by (simp add: sign_unfold s') (simp add: example_ps_env_def)
  show ?thesis
    using s d g t f ok
      timestamp_is_required [of example_ps_env "\<lambda>psd cert opts. Inr psd" "[1, 2]" 0 ?opts 1 "[1, 2]" "[1, 2]"
        "ErrOther ''timestamp server unreachable''" "[1, 2]"]
      timestamp_is_required [of ?ok "\<lambda>psd cert opts. Inr psd" "[1, 2]" 0 ?opts 1 "[1, 2]" "[1, 2]"
        "ErrOther ''timestamp server unreachable''" "[1, 2]"]
    by simp
qed

end
